theory Spec2Isabelle
  imports Complex_Main
begin

section \<open>Cajita global mesh: the data model\<close>

text \<open>
  The classes of \<^verbatim>\<open>Cajita_GlobalMesh.hpp\<close> are templates over the scalar
  type. The embedding keeps that: the scalar type is a type variable \<open>'s\<close> and the
  operations the header applies to scalars are the fields of a record that every function
  takes as its first argument. Nothing is assumed about these operations, so a theorem
  stated for every \<open>'s scalar_ops\<close> holds for binary32 and binary64 arithmetic with
  their rounding, infinities and NaN.

  \<^item> \<open>minus_s\<close>, \<open>times_s\<close>, \<open>divide_s\<close>: the operators \<^verbatim>\<open>-\<close>, \<^verbatim>\<open>*\<close>, \<^verbatim>\<open>/\<close>;
  \<^item> \<open>abs_s\<close>: \<^verbatim>\<open>std::abs\<close>; \<open>greater_s\<close>: the operator \<^verbatim>\<open>>\<close>;
  \<^item> \<open>of_int_s\<close>: the implicit conversion of an \<^verbatim>\<open>int\<close> operand to the scalar type;
  \<^item> \<open>rint_s\<close>: \<^verbatim>\<open>std::rint\<close>; \<open>to_int_s\<close>: the implicit conversion of its result
    to the \<^verbatim>\<open>int\<close> return type of \<^verbatim>\<open>globalNumCell\<close>;
  \<^item> \<open>hundred_s\<close>: \<^verbatim>\<open>Scalar( 100.0 )\<close>; \<open>epsilon_s\<close>:
    \<^verbatim>\<open>std::numeric_limits<Scalar>::epsilon()\<close>.
\<close>

record 's scalar_ops =
  minus_s :: "'s \<Rightarrow> 's \<Rightarrow> 's"
  times_s :: "'s \<Rightarrow> 's \<Rightarrow> 's"
  divide_s :: "'s \<Rightarrow> 's \<Rightarrow> 's"
  abs_s :: "'s \<Rightarrow> 's"
  greater_s :: "'s \<Rightarrow> 's \<Rightarrow> bool"
  of_int_s :: "int \<Rightarrow> 's"
  rint_s :: "'s \<Rightarrow> 's"
  to_int_s :: "'s \<Rightarrow> int"
  hundred_s :: "'s"
  epsilon_s :: "'s"

text \<open>The bound every check compares against:
  \<^verbatim>\<open>Scalar( 100.0 ) * std::numeric_limits<Scalar>::epsilon()\<close>.\<close>

definition tolerance :: "'s scalar_ops \<Rightarrow> 's" where
  "tolerance A = times_s A (hundred_s A) (epsilon_s A)"

text \<open>
  \<^verbatim>\<open>std::array<T, 3>\<close> has exactly three elements. \<^verbatim>\<open>operator[]\<close> does not check
  its index: a read outside \<open>0..2\<close> is undefined behaviour, which the model shows as
  \<open>None\<close>.
\<close>

datatype 'a array3 = Array3 'a 'a 'a

fun array_at :: "'a array3 \<Rightarrow> int \<Rightarrow> 'a option" where
  "array_at (Array3 a b c) d =
     (if d = 0 then Some a else if d = 1 then Some b else if d = 2 then Some c else None)"

text \<open>
  Modelled from the spec: the enumerators \<^verbatim>\<open>Dim::I\<close>, \<^verbatim>\<open>Dim::J\<close> and \<^verbatim>\<open>Dim::K\<close> are
  declared in \<^verbatim>\<open>Cajita_Types.hpp\<close>, which is not among the sources. The
  specification names the dimensions I, J, K and indexes them by \<open>0\<close>, \<open>1\<close>, \<open>2\<close>.
\<close>

definition Dim_I :: int where "Dim_I = 0"
definition Dim_J :: int where "Dim_J = 1"
definition Dim_K :: int where "Dim_K = 2"

text \<open>
  The constructors throw \<^verbatim>\<open>std::logic_error\<close> with a message. The second
  alternative stands for undefined behaviour (an unchecked read that is out of range).
\<close>

datatype error = Logic_error string | Undefined_behaviour

section \<open>The non-uniform global mesh\<close>

record 's nonuniform_mesh =
  edges :: "'s list array3"

text \<open>The constructor copies the three vectors into \<^verbatim>\<open>_edges\<close>; its body is empty.\<close>

definition GlobalMesh_nonuniform ::
  "'s list \<Rightarrow> 's list \<Rightarrow> 's list \<Rightarrow> 's nonuniform_mesh" where
  "GlobalMesh_nonuniform i_edges j_edges k_edges = \<lparr>edges = Array3 i_edges j_edges k_edges\<rparr>"

text \<open>\<^verbatim>\<open>front()\<close> and \<^verbatim>\<open>back()\<close> of an empty vector are undefined behaviour.\<close>

definition vector_front :: "'a list \<Rightarrow> 'a option" where
  "vector_front xs = (case xs of [] \<Rightarrow> None | x # _ \<Rightarrow> Some x)"

definition vector_back :: "'a list \<Rightarrow> 'a option" where
  "vector_back xs = (if xs = [] then None else Some (last xs))"

definition lowCorner_nonuniform :: "'s nonuniform_mesh \<Rightarrow> int \<Rightarrow> 's option" where
  "lowCorner_nonuniform m d =
     (case array_at (edges m) d of None \<Rightarrow> None | Some es \<Rightarrow> vector_front es)"

definition highCorner_nonuniform :: "'s nonuniform_mesh \<Rightarrow> int \<Rightarrow> 's option" where
  "highCorner_nonuniform m d =
     (case array_at (edges m) d of None \<Rightarrow> None | Some es \<Rightarrow> vector_back es)"

definition extent_nonuniform :: "'s scalar_ops \<Rightarrow> 's nonuniform_mesh \<Rightarrow> int \<Rightarrow> 's option" where
  "extent_nonuniform A m d =
     (case highCorner_nonuniform m d of
        None \<Rightarrow> None
      | Some h \<Rightarrow>
          (case lowCorner_nonuniform m d of
             None \<Rightarrow> None
           | Some l \<Rightarrow> Some (minus_s A h l)))"

text \<open>
  \<^verbatim>\<open>_edges[dim].size() - 1\<close> is computed in \<^verbatim>\<open>std::size_t\<close> (64 bits, wrapping) and
  returned as \<^verbatim>\<open>int\<close> (32 bits): the conversion keeps the low 32 bits, read as a signed
  number.
\<close>

definition size_t_minus_one :: "nat \<Rightarrow> int" where
  "size_t_minus_one n = (int n - 1) mod 2 ^ 64"

definition int_of_size_t :: "int \<Rightarrow> int" where
  "int_of_size_t z = (z + 2 ^ 31) mod 2 ^ 32 - 2 ^ 31"

definition globalNumCell_nonuniform :: "'s nonuniform_mesh \<Rightarrow> int \<Rightarrow> int option" where
  "globalNumCell_nonuniform m d =
     (case array_at (edges m) d of
        None \<Rightarrow> None
      | Some es \<Rightarrow> Some (int_of_size_t (size_t_minus_one (length es))))"

definition nonUniformEdge :: "'s nonuniform_mesh \<Rightarrow> int \<Rightarrow> 's list option" where
  "nonUniformEdge m d = array_at (edges m) d"

section \<open>The uniform global mesh\<close>

record 's uniform_mesh =
  global_low_corner :: "'s array3"
  global_high_corner :: "'s array3"
  cell_size :: "'s"

subsection \<open>Queries\<close>

definition lowCorner :: "'s uniform_mesh \<Rightarrow> int \<Rightarrow> 's option" where
  "lowCorner m d = array_at (global_low_corner m) d"

definition highCorner :: "'s uniform_mesh \<Rightarrow> int \<Rightarrow> 's option" where
  "highCorner m d = array_at (global_high_corner m) d"

definition extent :: "'s scalar_ops \<Rightarrow> 's uniform_mesh \<Rightarrow> int \<Rightarrow> 's option" where
  "extent A m d =
     (case highCorner m d of
        None \<Rightarrow> None
      | Some h \<Rightarrow>
          (case lowCorner m d of
             None \<Rightarrow> None
           | Some l \<Rightarrow> Some (minus_s A h l)))"

definition globalNumCell :: "'s scalar_ops \<Rightarrow> 's uniform_mesh \<Rightarrow> int \<Rightarrow> int option" where
  "globalNumCell A m d =
     (case extent A m d of
        None \<Rightarrow> None
      | Some e \<Rightarrow> Some (to_int_s A (rint_s A (divide_s A e (cell_size m)))))"

definition uniformCellSize :: "'s uniform_mesh \<Rightarrow> 's" where
  "uniformCellSize m = cell_size m"

subsection \<open>Constructors\<close>

text \<open>
  Both constructors run \<^verbatim>\<open>for ( int d = 0; d < 3; ++d )\<close> over a body that may throw.
  The loop stops at the first dimension whose body throws.
\<close>

function for_each_dim :: "(int \<Rightarrow> error + unit) \<Rightarrow> int \<Rightarrow> error + unit" where
  "for_each_dim body d =
     (if d < 3
      then (case body d of Inl e \<Rightarrow> Inl e | Inr u \<Rightarrow> for_each_dim body (d + 1))
      else Inr ())"
  by pat_completeness auto
termination
  by (relation "measure (\<lambda>(body, d). nat (3 - d))") auto

declare for_each_dim.simps [simp del]

text \<open>The loop body of the cell size constructor.\<close>

definition check_divisible :: "'s scalar_ops \<Rightarrow> 's uniform_mesh \<Rightarrow> int \<Rightarrow> error + unit" where
  "check_divisible A m d =
     (case globalNumCell A m d of
        None \<Rightarrow> Inl Undefined_behaviour
      | Some c \<Rightarrow>
          (case extent A m d of
             None \<Rightarrow> Inl Undefined_behaviour
           | Some e \<Rightarrow>
               (let ext = times_s A (of_int_s A c) (cell_size m) in
                if greater_s A (abs_s A (minus_s A ext e)) (tolerance A)
                then Inl (Logic_error ''Extent not evenly divisible by uniform cell size'')
                else Inr ())))"

definition GlobalMesh_cell_size ::
  "'s scalar_ops \<Rightarrow> 's array3 \<Rightarrow> 's array3 \<Rightarrow> 's \<Rightarrow> error + 's uniform_mesh" where
  "GlobalMesh_cell_size A low_corner high_corner cs =
     (let m = \<lparr>global_low_corner = low_corner, global_high_corner = high_corner,
                cell_size = cs\<rparr>
      in case for_each_dim (check_divisible A m) 0 of
           Inl e \<Rightarrow> Inl e
         | Inr u \<Rightarrow> Inr m)"

text \<open>
  The cell count constructor first fills the local array \<^verbatim>\<open>cell_sizes\<close> in a loop over
  \<open>d = 0, 1, 2\<close>, reading the corner arrays directly. The array is not initialised when
  it is declared: an element is \<open>None\<close> until the loop has written it, and to read such an
  element would be undefined behaviour.
\<close>

fun array_set :: "'a array3 \<Rightarrow> int \<Rightarrow> 'a \<Rightarrow> 'a array3 option" where
  "array_set (Array3 a b c) d v =
     (if d = 0 then Some (Array3 v b c) else if d = 1 then Some (Array3 a v c)
      else if d = 2 then Some (Array3 a b v) else None)"

definition uninitialized :: "'a option array3" where
  "uninitialized = Array3 None None None"

function cell_sizes_loop ::
  "'s scalar_ops \<Rightarrow> 's array3 \<Rightarrow> 's array3 \<Rightarrow> int array3 \<Rightarrow> 's option array3 \<Rightarrow> int \<Rightarrow>
     's option array3 option" where
  "cell_sizes_loop A low_corner high_corner num_cell sizes d =
     (if d < 3
      then (case array_at high_corner d of
              None \<Rightarrow> None
            | Some h \<Rightarrow>
            (case array_at low_corner d of
              None \<Rightarrow> None
            | Some l \<Rightarrow>
            (case array_at num_cell d of
              None \<Rightarrow> None
            | Some n \<Rightarrow>
            (case array_set sizes d (Some (divide_s A (minus_s A h l) (of_int_s A n))) of
              None \<Rightarrow> None
            | Some sizes' \<Rightarrow> cell_sizes_loop A low_corner high_corner num_cell sizes' (d + 1)))))
      else Some sizes)"
  by pat_completeness auto
termination
  by (relation "measure (\<lambda>(A, lo, hi, n, sizes, d). nat (3 - d))") auto

declare cell_sizes_loop.simps [simp del]

definition read_initialized :: "'a option array3 \<Rightarrow> int \<Rightarrow> 'a option" where
  "read_initialized xs d =
     (case array_at xs d of None \<Rightarrow> None | Some None \<Rightarrow> None | Some (Some x) \<Rightarrow> Some x)"

text \<open>The loop body of the cell count constructor: the same check, then the count.\<close>

definition check_divisible_and_count ::
  "'s scalar_ops \<Rightarrow> 's uniform_mesh \<Rightarrow> int array3 \<Rightarrow> int \<Rightarrow> error + unit" where
  "check_divisible_and_count A m num_cell d =
     (case check_divisible A m d of
        Inl e \<Rightarrow> Inl e
      | Inr u \<Rightarrow>
          (case globalNumCell A m d of
             None \<Rightarrow> Inl Undefined_behaviour
           | Some c \<Rightarrow>
               (case array_at num_cell d of
                  None \<Rightarrow> Inl Undefined_behaviour
                | Some n \<Rightarrow>
                    if c \<noteq> n then Inl (Logic_error ''Global number of cells mismatch'')
                    else Inr ())))"

definition GlobalMesh_num_cell ::
  "'s scalar_ops \<Rightarrow> 's array3 \<Rightarrow> 's array3 \<Rightarrow> int array3 \<Rightarrow> error + 's uniform_mesh" where
  "GlobalMesh_num_cell A low_corner high_corner num_cell =
     (case cell_sizes_loop A low_corner high_corner num_cell uninitialized 0 of
        None \<Rightarrow> Inl Undefined_behaviour
      | Some sizes \<Rightarrow>
      (case read_initialized sizes Dim_I of
        None \<Rightarrow> Inl Undefined_behaviour
      | Some ci \<Rightarrow>
      (case read_initialized sizes Dim_J of
        None \<Rightarrow> Inl Undefined_behaviour
      | Some cj \<Rightarrow>
      (case read_initialized sizes Dim_K of
        None \<Rightarrow> Inl Undefined_behaviour
      | Some ck \<Rightarrow>
          if greater_s A (abs_s A (minus_s A ci cj)) (tolerance A) \<or>
             greater_s A (abs_s A (minus_s A ci ck)) (tolerance A)
          then Inl (Logic_error ''Cell sizes not equal'')
          else
            (let m = \<lparr>global_low_corner = low_corner, global_high_corner = high_corner,
                       cell_size = ci\<rparr>
             in case for_each_dim (check_divisible_and_count A m num_cell) 0 of
                  Inl e \<Rightarrow> Inl e
                | Inr u \<Rightarrow> Inr m)))))"

section \<open>Binary floating-point arithmetic\<close>

text \<open>
  An instance of the scalar operations, to run the model on concrete inputs: the binary
  floating-point numbers of IEEE 754 with a significand of \<open>precision\<close> bits and exponents
  from \<open>1 - emax\<close> to \<open>emax\<close>; \<^verbatim>\<open>double\<close> is the format with 53 bits and \<open>emax = 1023\<close>,
  \<^verbatim>\<open>float\<close> the one with 24 bits and \<open>emax = 127\<close>. A number is a finite real, an
  infinity (\<open>Infinity True\<close> is the negative one) or NaN. Zero carries no sign here:
  \<open>-0.0\<close> and \<open>+0.0\<close> are one number, as they are for \<^verbatim>\<open>==\<close>, and a finite number
  divided by zero gives the infinity with the sign of the dividend.
\<close>

datatype fp = Finite real | Infinity bool | NaN

record format =
  precision :: nat
  emax :: nat

definition binary64 :: format where
  "binary64 = \<lparr>precision = 53, emax = 1023\<rparr>"

definition binary32 :: format where
  "binary32 = \<lparr>precision = 24, emax = 127\<rparr>"

text \<open>
  \<^verbatim>\<open>std::rint\<close> in the default rounding mode: the nearest integer, and of two nearest ones
  the even one.
\<close>

definition rint_real :: "real \<Rightarrow> real" where
  "rint_real x =
     (let f = \<lfloor>x\<rfloor>; r = x - of_int f in
      if r < 1 / 2 then of_int f
      else if 1 / 2 < r then of_int (f + 1)
      else if even f then of_int f else of_int (f + 1))"

text \<open>
  Rounding an exact result to the format, to nearest and ties to the even significand. For
  \<open>2\<^sup>n \<le> |x| < 2\<^sup>n\<^sup>+\<^sup>1\<close> the numbers of the format around \<open>x\<close> are the multiples of the
  quantum \<open>2\<^sup>n\<^sup>-\<^sup>p\<^sup>+\<^sup>1\<close>; below the smallest normal number the quantum stays that of the
  subnormal numbers. A result that rounds to \<open>2\<^sup>e\<^sup>m\<^sup>a\<^sup>x\<^sup>+\<^sup>1\<close> or beyond overflows to infinity.
\<close>

definition quantum :: "format \<Rightarrow> real \<Rightarrow> real" where
  "quantum F x =
     2 powr real_of_int (max \<lfloor>log 2 \<bar>x\<bar>\<rfloor> (1 - int (emax F)) - int (precision F) + 1)"

definition round_fp :: "format \<Rightarrow> real \<Rightarrow> fp" where
  "round_fp F x =
     (if x = 0 then Finite 0
      else (let r = rint_real (x / quantum F x) * quantum F x in
            if 2 ^ (emax F + 1) \<le> \<bar>r\<bar> then Infinity (x < 0) else Finite r))"

fun minus_fp :: "format \<Rightarrow> fp \<Rightarrow> fp \<Rightarrow> fp" where
  "minus_fp F (Finite a) (Finite b) = round_fp F (a - b)"
| "minus_fp F (Finite a) (Infinity s) = Infinity (\<not> s)"
| "minus_fp F (Infinity s) (Finite b) = Infinity s"
| "minus_fp F (Infinity s) (Infinity t) = (if s = t then NaN else Infinity s)"
| "minus_fp F NaN y = NaN"
| "minus_fp F x NaN = NaN"

fun times_fp :: "format \<Rightarrow> fp \<Rightarrow> fp \<Rightarrow> fp" where
  "times_fp F (Finite a) (Finite b) = round_fp F (a * b)"
| "times_fp F (Finite a) (Infinity s) = (if a = 0 then NaN else Infinity (s \<noteq> (a < 0)))"
| "times_fp F (Infinity s) (Finite b) = (if b = 0 then NaN else Infinity (s \<noteq> (b < 0)))"
| "times_fp F (Infinity s) (Infinity t) = Infinity (s \<noteq> t)"
| "times_fp F NaN y = NaN"
| "times_fp F x NaN = NaN"

fun divide_fp :: "format \<Rightarrow> fp \<Rightarrow> fp \<Rightarrow> fp" where
  "divide_fp F (Finite a) (Finite b) =
     (if b = 0 then (if a = 0 then NaN else Infinity (a < 0)) else round_fp F (a / b))"
| "divide_fp F (Finite a) (Infinity s) = Finite 0"
| "divide_fp F (Infinity s) (Finite b) = Infinity (s \<noteq> (b < 0))"
| "divide_fp F (Infinity s) (Infinity t) = NaN"
| "divide_fp F NaN y = NaN"
| "divide_fp F x NaN = NaN"

fun abs_fp :: "fp \<Rightarrow> fp" where
  "abs_fp (Finite a) = Finite \<bar>a\<bar>"
| "abs_fp (Infinity s) = Infinity False"
| "abs_fp NaN = NaN"

text \<open>The comparisons \<^verbatim>\<open><\<close> and \<^verbatim>\<open><=\<close>: both are false when an operand is NaN.\<close>

fun less_fp :: "fp \<Rightarrow> fp \<Rightarrow> bool" where
  "less_fp (Finite a) (Finite b) = (a < b)"
| "less_fp (Finite a) (Infinity s) = (\<not> s)"
| "less_fp (Infinity s) (Finite b) = s"
| "less_fp (Infinity s) (Infinity t) = (s \<and> \<not> t)"
| "less_fp NaN y = False"
| "less_fp x NaN = False"

fun less_eq_fp :: "fp \<Rightarrow> fp \<Rightarrow> bool" where
  "less_eq_fp (Finite a) (Finite b) = (a \<le> b)"
| "less_eq_fp (Finite a) (Infinity s) = (\<not> s)"
| "less_eq_fp (Infinity s) (Finite b) = s"
| "less_eq_fp (Infinity s) (Infinity t) = (s \<or> \<not> t)"
| "less_eq_fp NaN y = False"
| "less_eq_fp x NaN = False"

fun rint_fp :: "fp \<Rightarrow> fp" where
  "rint_fp (Finite a) = Finite (rint_real a)"
| "rint_fp (Infinity s) = Infinity s"
| "rint_fp NaN = NaN"

text \<open>
  The conversion of a floating-point number to \<^verbatim>\<open>int\<close> drops the fraction. Where the
  result is not in the range of \<^verbatim>\<open>int\<close>, and for an infinity or NaN, C++ leaves the
  behaviour undefined; the instance returns what the conversion instruction of x86-64
  returns there, the smallest \<^verbatim>\<open>int\<close>.
\<close>

definition trunc_real :: "real \<Rightarrow> int" where
  "trunc_real x = (if 0 \<le> x then \<lfloor>x\<rfloor> else \<lceil>x\<rceil>)"

definition INT_MIN :: int where
  "INT_MIN = - (2 ^ 31)"

fun to_int_fp :: "fp \<Rightarrow> int" where
  "to_int_fp (Finite a) =
     (if - (2 ^ 31) \<le> trunc_real a \<and> trunc_real a < 2 ^ 31 then trunc_real a else INT_MIN)"
| "to_int_fp (Infinity s) = INT_MIN"
| "to_int_fp NaN = INT_MIN"

definition ieee_ops :: "format \<Rightarrow> fp scalar_ops" where
  "ieee_ops F =
     \<lparr>minus_s = minus_fp F, times_s = times_fp F, divide_s = divide_fp F, abs_s = abs_fp,
      greater_s = (\<lambda>a b. less_fp b a), of_int_s = (\<lambda>k. round_fp F (real_of_int k)),
      rint_s = rint_fp, to_int_s = to_int_fp, hundred_s = Finite 100,
      epsilon_s = Finite (1 / 2 ^ (precision F - 1))\<rparr>"

definition binary64_ops :: "fp scalar_ops" where
  "binary64_ops = ieee_ops binary64"

definition binary32_ops :: "fp scalar_ops" where
  "binary32_ops = ieee_ops binary32"

definition binary64_epsilon :: real where
  "binary64_epsilon = 1 / 2 ^ 52"

definition binary32_epsilon :: real where
  "binary32_epsilon = 1 / 2 ^ 23"

text \<open>An array of three finite numbers.\<close>

definition finite3 :: "real \<Rightarrow> real \<Rightarrow> real \<Rightarrow> fp array3" where
  "finite3 a b c = Array3 (Finite a) (Finite b) (Finite c)"

section \<open>Sequences of query calls\<close>

text \<open>
  Every query is a \<^verbatim>\<open>const\<close> member function whose body is a single \<^verbatim>\<open>return\<close> of an
  expression over the fields. To speak about repeated calls, a call is modelled as a step
  that takes the object and returns the answer together with the object after the call.
\<close>

datatype 's answer =
  Scalar_answer "'s option" | Int_answer "int option" | Edges_answer "'s list option"

datatype uniform_query =
  Call_lowCorner int | Call_highCorner int | Call_extent int | Call_globalNumCell int
| Call_uniformCellSize

datatype nonuniform_query =
  NCall_lowCorner int | NCall_highCorner int | NCall_extent int | NCall_globalNumCell int
| NCall_nonUniformEdge int

fun call_uniform ::
  "'s scalar_ops \<Rightarrow> 's uniform_mesh \<Rightarrow> uniform_query \<Rightarrow> 's answer \<times> 's uniform_mesh" where
  "call_uniform A m (Call_lowCorner d) = (Scalar_answer (lowCorner m d), m)"
| "call_uniform A m (Call_highCorner d) = (Scalar_answer (highCorner m d), m)"
| "call_uniform A m (Call_extent d) = (Scalar_answer (extent A m d), m)"
| "call_uniform A m (Call_globalNumCell d) = (Int_answer (globalNumCell A m d), m)"
| "call_uniform A m Call_uniformCellSize = (Scalar_answer (Some (uniformCellSize m)), m)"

fun call_nonuniform ::
  "'s scalar_ops \<Rightarrow> 's nonuniform_mesh \<Rightarrow> nonuniform_query \<Rightarrow> 's answer \<times> 's nonuniform_mesh"
  where
  "call_nonuniform A m (NCall_lowCorner d) = (Scalar_answer (lowCorner_nonuniform m d), m)"
| "call_nonuniform A m (NCall_highCorner d) = (Scalar_answer (highCorner_nonuniform m d), m)"
| "call_nonuniform A m (NCall_extent d) = (Scalar_answer (extent_nonuniform A m d), m)"
| "call_nonuniform A m (NCall_globalNumCell d) = (Int_answer (globalNumCell_nonuniform m d), m)"
| "call_nonuniform A m (NCall_nonUniformEdge d) = (Edges_answer (nonUniformEdge m d), m)"

text \<open>A sequence of calls: each one runs on the object the previous one left.\<close>

fun run_calls :: "('m \<Rightarrow> 'q \<Rightarrow> 'r \<times> 'm) \<Rightarrow> 'm \<Rightarrow> 'q list \<Rightarrow> 'r list \<times> 'm" where
  "run_calls call m [] = ([], m)"
| "run_calls call m (q # qs) =
     (case call m q of (r, m') \<Rightarrow>
        (case run_calls call m' qs of (rs, m'') \<Rightarrow> (r # rs, m'')))"

section \<open>The checks in terms of the arguments\<close>

text \<open>
  For one dimension with low corner \<open>l\<close> and high corner \<open>h\<close>, on an object with cell size
  \<open>cs\<close>: what \<^verbatim>\<open>globalNumCell\<close> returns, and the difference the evenly-divisible check
  of the constructors computes from it. \<open>exceeds_tolerance\<close> is the comparison of the
  checks: the value is greater than \<open>100 * epsilon\<close>, by the scalar type's \<^verbatim>\<open>>\<close>;
  \<open>sizes_differ\<close>: two cell sizes differ by more than that.
\<close>

definition exceeds_tolerance :: "'s scalar_ops \<Rightarrow> 's \<Rightarrow> bool" where
  "exceeds_tolerance A x = greater_s A x (tolerance A)"

definition recomputed_count :: "'s scalar_ops \<Rightarrow> 's \<Rightarrow> 's \<Rightarrow> 's \<Rightarrow> int" where
  "recomputed_count A l h cs = to_int_s A (rint_s A (divide_s A (minus_s A h l) cs))"

definition recomputed_gap :: "'s scalar_ops \<Rightarrow> 's \<Rightarrow> 's \<Rightarrow> 's \<Rightarrow> 's" where
  "recomputed_gap A l h cs =
     abs_s A (minus_s A (times_s A (of_int_s A (recomputed_count A l h cs)) cs) (minus_s A h l))"

definition sizes_differ :: "'s scalar_ops \<Rightarrow> 's \<Rightarrow> 's \<Rightarrow> bool" where
  "sizes_differ A c c' = exceeds_tolerance A (abs_s A (minus_s A c c'))"

section \<open>The quantities the specification speaks of\<close>

text \<open>
  These definitions follow the words of the specification, in the arithmetic of the scalar
  type and with no conversion to \<^verbatim>\<open>int\<close>:

  \<^item> \<open>spec_round\<close>: \<open>round(extent / cell_size)\<close> with \<open>extent = h - l\<close>;
  \<^item> \<open>spec_extent_gap\<close>: the absolute difference between
    \<open>round(extent / cell_size) * cell_size\<close> and the extent;
  \<^item> \<open>spec_cell_size\<close>: the candidate cell size \<open>extent / n\<close>.

  \<open>int_exact\<close> says of a scalar that the conversion to \<^verbatim>\<open>int\<close> and back returns it.
\<close>

definition spec_round :: "'s scalar_ops \<Rightarrow> 's \<Rightarrow> 's \<Rightarrow> 's \<Rightarrow> 's" where
  "spec_round A l h cs = rint_s A (divide_s A (minus_s A h l) cs)"

definition spec_extent_gap :: "'s scalar_ops \<Rightarrow> 's \<Rightarrow> 's \<Rightarrow> 's \<Rightarrow> 's" where
  "spec_extent_gap A l h cs =
     abs_s A (minus_s A (times_s A (spec_round A l h cs) cs) (minus_s A h l))"

definition spec_cell_size :: "'s scalar_ops \<Rightarrow> 's \<Rightarrow> 's \<Rightarrow> int \<Rightarrow> 's" where
  "spec_cell_size A l h n = divide_s A (minus_s A h l) (of_int_s A n)"

definition int_exact :: "'s scalar_ops \<Rightarrow> 's \<Rightarrow> bool" where
  "int_exact A r = (of_int_s A (to_int_s A r) = r)"

text \<open>
  Two uniform meshes are equivalent when every query answers the same on both, in every
  dimension.
\<close>

definition same_answers :: "'s scalar_ops \<Rightarrow> 's uniform_mesh \<Rightarrow> 's uniform_mesh \<Rightarrow> bool" where
  "same_answers A m m' =
     (uniformCellSize m = uniformCellSize m' \<and>
      (\<forall>d. lowCorner m d = lowCorner m' d \<and> highCorner m d = highCorner m' d \<and>
           extent A m d = extent A m' d \<and> globalNumCell A m d = globalNumCell A m' d))"

abbreviation divisible_error :: error where
  "divisible_error \<equiv> Logic_error ''Extent not evenly divisible by uniform cell size''"

abbreviation sizes_error :: error where
  "sizes_error \<equiv> Logic_error ''Cell sizes not equal''"

abbreviation mismatch_error :: error where
  "mismatch_error \<equiv> Logic_error ''Global number of cells mismatch''"

section \<open>The loop and the checks in closed form\<close>

lemma for_each_dim_unfold:
  "for_each_dim body 0 =
     (case body 0 of
        Inl e \<Rightarrow> Inl e
      | Inr u \<Rightarrow>
          (case body 1 of
             Inl e \<Rightarrow> Inl e
           | Inr u \<Rightarrow> (case body 2 of Inl e \<Rightarrow> Inl e | Inr u \<Rightarrow> Inr ())))"
  by (simp add: for_each_dim.simps [of body 0] for_each_dim.simps [of body 1]
      for_each_dim.simps [of body 2] for_each_dim.simps [of body 3] split: sum.splits)

lemma for_each_dim_ok_iff:
  "(for_each_dim body 0 = Inr ()) = (body 0 = Inr () \<and> body 1 = Inr () \<and> body 2 = Inr ())"
  by (simp add: for_each_dim_unfold split: sum.splits)

lemma check_divisible_Array3:
  assumes "m = \<lparr>global_low_corner = Array3 l0 l1 l2, global_high_corner = Array3 h0 h1 h2,
                cell_size = cs\<rparr>"
  shows "check_divisible A m 0 =
           (if exceeds_tolerance A (recomputed_gap A l0 h0 cs) then Inl divisible_error
            else Inr ())"
    and "check_divisible A m 1 =
           (if exceeds_tolerance A (recomputed_gap A l1 h1 cs) then Inl divisible_error
            else Inr ())"
    and "check_divisible A m 2 =
           (if exceeds_tolerance A (recomputed_gap A l2 h2 cs) then Inl divisible_error
            else Inr ())"
  using assms
  by (simp_all add: check_divisible_def globalNumCell_def extent_def lowCorner_def
      highCorner_def exceeds_tolerance_def recomputed_gap_def recomputed_count_def)

lemma check_divisible_and_count_Array3:
  assumes "m = \<lparr>global_low_corner = Array3 l0 l1 l2, global_high_corner = Array3 h0 h1 h2,
                cell_size = cs\<rparr>"
  shows "check_divisible_and_count A m (Array3 n0 n1 n2) 0 =
           (if exceeds_tolerance A (recomputed_gap A l0 h0 cs) then Inl divisible_error
            else if recomputed_count A l0 h0 cs \<noteq> n0 then Inl mismatch_error else Inr ())"
    and "check_divisible_and_count A m (Array3 n0 n1 n2) 1 =
           (if exceeds_tolerance A (recomputed_gap A l1 h1 cs) then Inl divisible_error
            else if recomputed_count A l1 h1 cs \<noteq> n1 then Inl mismatch_error else Inr ())"
    and "check_divisible_and_count A m (Array3 n0 n1 n2) 2 =
           (if exceeds_tolerance A (recomputed_gap A l2 h2 cs) then Inl divisible_error
            else if recomputed_count A l2 h2 cs \<noteq> n2 then Inl mismatch_error else Inr ())"
  using assms
  by (simp_all add: check_divisible_and_count_def check_divisible_Array3 [OF refl]
      globalNumCell_def extent_def lowCorner_def highCorner_def recomputed_count_def)

lemma cell_sizes_loop_Array3:
  "cell_sizes_loop A (Array3 l0 l1 l2) (Array3 h0 h1 h2) (Array3 n0 n1 n2) sizes 0 =
     Some (Array3 (Some (spec_cell_size A l0 h0 n0)) (Some (spec_cell_size A l1 h1 n1))
       (Some (spec_cell_size A l2 h2 n2)))"
proof -
  obtain a b c where sizes: "sizes = Array3 a b c"
    by (cases sizes) auto
  show ?thesis
    unfolding sizes
    by (simp add: cell_sizes_loop.simps [of _ _ _ _ _ 0] cell_sizes_loop.simps [of _ _ _ _ _ 1]
        cell_sizes_loop.simps [of _ _ _ _ _ 2] cell_sizes_loop.simps [of _ _ _ _ _ 3]
        spec_cell_size_def)
qed

lemma GlobalMesh_cell_size_Array3:
  "GlobalMesh_cell_size A (Array3 l0 l1 l2) (Array3 h0 h1 h2) cs =
     (if exceeds_tolerance A (recomputed_gap A l0 h0 cs) \<or>
         exceeds_tolerance A (recomputed_gap A l1 h1 cs) \<or>
         exceeds_tolerance A (recomputed_gap A l2 h2 cs)
      then Inl divisible_error
      else Inr \<lparr>global_low_corner = Array3 l0 l1 l2, global_high_corner = Array3 h0 h1 h2,
                 cell_size = cs\<rparr>)"
  by (simp add: GlobalMesh_cell_size_def for_each_dim_unfold check_divisible_Array3 [OF refl])

lemma GlobalMesh_num_cell_Array3:
  "GlobalMesh_num_cell A (Array3 l0 l1 l2) (Array3 h0 h1 h2) (Array3 n0 n1 n2) =
     (let cs = spec_cell_size A l0 h0 n0 in
      if sizes_differ A cs (spec_cell_size A l1 h1 n1) \<or>
         sizes_differ A cs (spec_cell_size A l2 h2 n2)
      then Inl sizes_error
      else if exceeds_tolerance A (recomputed_gap A l0 h0 cs) then Inl divisible_error
      else if recomputed_count A l0 h0 cs \<noteq> n0 then Inl mismatch_error
      else if exceeds_tolerance A (recomputed_gap A l1 h1 cs) then Inl divisible_error
      else if recomputed_count A l1 h1 cs \<noteq> n1 then Inl mismatch_error
      else if exceeds_tolerance A (recomputed_gap A l2 h2 cs) then Inl divisible_error
      else if recomputed_count A l2 h2 cs \<noteq> n2 then Inl mismatch_error
      else Inr \<lparr>global_low_corner = Array3 l0 l1 l2, global_high_corner = Array3 h0 h1 h2,
                 cell_size = cs\<rparr>)"
  by (simp add: GlobalMesh_num_cell_def cell_sizes_loop_Array3 read_initialized_def
      Dim_I_def Dim_J_def Dim_K_def sizes_differ_def exceeds_tolerance_def
      spec_cell_size_def for_each_dim_unfold check_divisible_and_count_Array3 [OF refl])

lemma GlobalMesh_cell_size_stores:
  "GlobalMesh_cell_size A lo hi cs = Inr m \<Longrightarrow>
     m = \<lparr>global_low_corner = lo, global_high_corner = hi, cell_size = cs\<rparr>"
  by (auto simp: GlobalMesh_cell_size_def Let_def split: sum.splits)

lemma GlobalMesh_num_cell_stores:
  "GlobalMesh_num_cell A lo hi n = Inr m \<Longrightarrow>
     global_low_corner m = lo \<and> global_high_corner m = hi"
  by (auto simp: GlobalMesh_num_cell_def Let_def split: sum.splits option.splits if_splits)

text \<open>
  The constructors index the arrays with \<open>0\<close>, \<open>1\<close>, \<open>2\<close> only: no read of theirs is out
  of range.
\<close>

lemma constructors_defined:
  "GlobalMesh_cell_size A lo hi cs \<noteq> Inl Undefined_behaviour"
  "GlobalMesh_num_cell A lo hi n \<noteq> Inl Undefined_behaviour"
proof -
  obtain l0 l1 l2 h0 h1 h2 n0 n1 n2
    where "lo = Array3 l0 l1 l2" "hi = Array3 h0 h1 h2" "n = Array3 n0 n1 n2"
    by (cases lo, cases hi, cases n) auto
  then show "GlobalMesh_cell_size A lo hi cs \<noteq> Inl Undefined_behaviour"
    and "GlobalMesh_num_cell A lo hi n \<noteq> Inl Undefined_behaviour"
    by (simp_all add: GlobalMesh_cell_size_Array3 GlobalMesh_num_cell_Array3 Let_def)
qed

text \<open>
  The gap of the specification is the gap the constructors compute wherever the rounded
  quotient comes back from the conversion to \<^verbatim>\<open>int\<close>.
\<close>

lemma recomputed_gap_spec:
  "int_exact A (spec_round A l h cs) \<Longrightarrow> recomputed_gap A l h cs = spec_extent_gap A l h cs"
  by (simp add: int_exact_def spec_round_def recomputed_gap_def recomputed_count_def
      spec_extent_gap_def)

section \<open>Evaluating the floating-point instance\<close>

lemma format_simps [simp]:
  "precision binary64 = 53" "emax binary64 = 1023"
  "precision binary32 = 24" "emax binary32 = 127"
  by (simp_all add: binary64_def binary32_def)

lemma rint_real_of_int: "rint_real (of_int n) = of_int n"
  by (simp add: rint_real_def)

lemma rint_real_integer: "\<exists>i. rint_real x = of_int i"
proof -
  have "rint_real x = of_int \<lfloor>x\<rfloor> \<or> rint_real x = of_int (\<lfloor>x\<rfloor> + 1)"
    by (simp add: rint_real_def Let_def)
  then show ?thesis by blast
qed

lemma rint_real_error: "\<bar>rint_real x - x\<bar> \<le> 1 / 2"
  unfolding rint_real_def Let_def
  by (auto simp: abs_le_iff)

lemma rint_real_near:
  assumes "real_of_int n - 1 / 2 < y" and "y < real_of_int n + 1 / 2"
  shows "rint_real y = real_of_int n"
proof (cases "real_of_int n \<le> y")
  case True
  with assms have "\<lfloor>y\<rfloor> = n"
    by (simp add: floor_eq_iff)
  with assms show ?thesis
    by (simp add: rint_real_def)
next
  case False
  with assms have "\<lfloor>y\<rfloor> = n - 1"
    by (simp add: floor_eq_iff)
  with assms False show ?thesis
    by (simp add: rint_real_def)
qed

lemma trunc_real_of_int: "trunc_real (of_int i) = i"
  by (simp add: trunc_real_def)

lemma floor_log2_le:
  assumes "0 < x" and "x < 2 ^ n"
  shows "\<lfloor>log 2 x\<rfloor> \<le> int n - 1"
proof -
  have "log 2 x < log 2 (2 ^ n)"
    using assms by (simp add: log_less_cancel_iff del: log_pow_cancel)
  then have "log 2 x < real n" by simp
  then have "\<lfloor>log 2 x\<rfloor> < int n"
    by (simp add: floor_less_iff)
  then show ?thesis by simp
qed

lemma floor_log2_eq:
  assumes "2 powr real_of_int n \<le> x" and "x < 2 powr real_of_int (n + 1)"
  shows "\<lfloor>log 2 x\<rfloor> = n"
proof -
  have x: "0 < x"
    using assms(1) by (rule less_le_trans [rotated]) simp
  from x assms(1) have "real_of_int n \<le> log 2 x"
    by (simp add: le_log_iff)
  moreover from x assms(2) have "log 2 x < real_of_int (n + 1)"
    by (simp add: log_less_iff)
  ultimately show ?thesis
    by (simp add: floor_eq_iff)
qed

text \<open>
  A number \<open>k * 2\<^sup>j\<close> with \<open>|k| < 2\<^sup>p\<close> and \<open>j\<close> not below the exponent of the subnormal
  quantum is a multiple of its quantum: rounding returns it.
\<close>

lemma quantum_fix:
  assumes x: "x = of_int k * 2 powr real_of_int j" and k: "\<bar>k\<bar> < 2 ^ precision F"
    and j: "2 - int (emax F) - int (precision F) \<le> j" and k0: "k \<noteq> 0"
  shows "rint_real (x / quantum F x) * quantum F x = x"
proof -
  define e where "e = max \<lfloor>log 2 \<bar>x\<bar>\<rfloor> (1 - int (emax F)) - int (precision F) + 1"
  have q: "quantum F x = 2 powr real_of_int e"
    by (simp add: quantum_def e_def)
  have "real_of_int \<bar>k\<bar> < real_of_int (2 ^ precision F)"
    using k by (simp only: of_int_less_iff)
  then have ak: "0 < \<bar>real_of_int k\<bar>" "\<bar>real_of_int k\<bar> < 2 ^ precision F"
    using k0 by simp_all
  have "log 2 \<bar>x\<bar> = log 2 \<bar>real_of_int k\<bar> + real_of_int j"
    using ak(1) unfolding x abs_mult
    by (subst log_mult) simp_all
  then have "\<lfloor>log 2 \<bar>x\<bar>\<rfloor> = \<lfloor>log 2 \<bar>real_of_int k\<bar>\<rfloor> + j"
    by simp
  also have "\<dots> \<le> int (precision F) - 1 + j"
    using floor_log2_le [OF ak] by simp
  finally have "e \<le> j"
    using j by (simp add: e_def)
  then obtain d where d: "j = e + int d"
    by (metis zle_iff_zadd)
  have "x / 2 powr real_of_int e = of_int k * 2 powr real d"
    unfolding x d by (simp add: powr_add)
  also have "\<dots> = of_int (k * 2 ^ d)"
    by (simp add: powr_realpow)
  finally have sc: "x / 2 powr real_of_int e = of_int (k * 2 ^ d)" .
  have "rint_real (x / 2 powr real_of_int e) * 2 powr real_of_int e =
      x / 2 powr real_of_int e * 2 powr real_of_int e"
    unfolding sc rint_real_of_int ..
  also have "\<dots> = x" by simp
  finally show ?thesis
    unfolding q .
qed

lemma round_fp_scaled:
  assumes int: "x * 2 ^ n = of_int \<lfloor>x * 2 ^ n\<rfloor>" and less: "\<bar>x * 2 ^ n\<bar> < 2 ^ precision F"
    and n: "n + 2 \<le> emax F + precision F" and F: "precision F \<le> emax F + 1"
  shows "round_fp F x = Finite x"
proof (cases "x = 0")
  case True
  then show ?thesis by (simp add: round_fp_def)
next
  case False
  define k where "k = \<lfloor>x * 2 ^ n\<rfloor>"
  have xk: "x * 2 ^ n = of_int k"
    using int by (simp add: k_def)
  then have k0: "k \<noteq> 0"
    using False by auto
  have x: "x = real_of_int k * 2 powr real_of_int (- int n)"
    unfolding xk [symmetric]
    by (simp add: powr_minus powr_realpow field_simps)
  have "real_of_int \<bar>k\<bar> < real_of_int (2 ^ precision F)"
    using less xk by simp
  then have k: "\<bar>k\<bar> < 2 ^ precision F"
    by (simp only: of_int_less_iff)
  have j: "2 - int (emax F) - int (precision F) \<le> - int n"
    using n by simp
  have r: "rint_real (x / quantum F x) * quantum F x = x"
    using x k j k0 by (rule quantum_fix)
  have "\<bar>x\<bar> * 1 \<le> \<bar>x\<bar> * 2 ^ n"
    by (intro mult_left_mono) simp_all
  then have "\<bar>x\<bar> < 2 ^ precision F"
    using less by (simp add: abs_mult)
  also have "\<dots> \<le> 2 ^ (emax F + 1)"
    using F by (intro power_increasing) simp_all
  finally have "\<not> 2 ^ (emax F + 1) \<le> \<bar>x\<bar>"
    by simp
  with False r show ?thesis
    by (simp add: round_fp_def Let_def)
qed

text \<open>
  Otherwise rounding moves a number by at most half a quantum; in a binade below the
  largest one the result is finite.
\<close>

lemma round_fp_near:
  assumes lo: "2 powr real_of_int n \<le> \<bar>x\<bar>" and hi: "\<bar>x\<bar> < 2 powr real_of_int (n + 1)"
    and n: "1 - int (emax F) \<le> n" "n < int (emax F)"
  shows "\<exists>r. round_fp F x = Finite r \<and>
           \<bar>r - x\<bar> \<le> 2 powr real_of_int (n - int (precision F) + 1) / 2"
proof -
  define u where "u = 2 powr real_of_int (n - int (precision F) + 1)"
  define r where "r = rint_real (x / u) * u"
  have u: "0 < u" by (simp add: u_def)
  have "0 < \<bar>x\<bar>"
    using lo by (rule less_le_trans [rotated]) simp
  then have x0: "x \<noteq> 0" by simp
  have "\<lfloor>log 2 \<bar>x\<bar>\<rfloor> = n"
    using lo hi by (rule floor_log2_eq)
  then have q: "quantum F x = u"
    using n by (simp add: quantum_def u_def max_def)
  have "r - x = (rint_real (x / u) - x / u) * u"
    using u unfolding r_def by (simp add: field_simps)
  then have "\<bar>r - x\<bar> = \<bar>rint_real (x / u) - x / u\<bar> * u"
    using u by (simp add: abs_mult)
  also have "\<dots> \<le> 1 / 2 * u"
    using u rint_real_error [of "x / u"] by (intro mult_right_mono) simp_all
  finally have err: "\<bar>r - x\<bar> \<le> u / 2"
    by simp
  have "u \<le> 2 powr real_of_int (n + 1)"
    unfolding u_def by (intro powr_mono) simp_all
  with err hi have "\<bar>r\<bar> < 2 powr real_of_int (n + 1) + 2 powr real_of_int (n + 1) / 2"
    by linarith
  also have "\<dots> \<le> 2 powr real_of_int (int (emax F)) + 2 powr real_of_int (int (emax F)) / 2"
  proof -
    have "2 powr real_of_int (n + 1) \<le> (2::real) powr real_of_int (int (emax F))"
      using n by (intro powr_mono) simp_all
    then show ?thesis by linarith
  qed
  also have "\<dots> < 2 ^ (emax F + 1)"
    by (simp add: powr_realpow)
  finally have "\<not> 2 ^ (emax F + 1) \<le> \<bar>r\<bar>"
    by simp
  with x0 q have "round_fp F x = Finite r"
    by (simp add: round_fp_def r_def Let_def)
  with err show ?thesis
    by (auto simp: u_def)
qed

text \<open>
  Rules the simplifier evaluates the instance with: an integer, a half of an integer or a
  multiple of the machine epsilon whose significand fits the format is a number of the
  format.
\<close>

lemma round_binary64:
  assumes "x * 2 ^ n = of_int \<lfloor>x * 2 ^ n\<rfloor>" and "\<bar>x * 2 ^ n\<bar> < 2 ^ 53" and "n \<le> 1074"
  shows "round_fp binary64 x = Finite x"
  by (rule round_fp_scaled [where n = n]) (use assms in simp_all)

lemma round_binary32:
  assumes "x * 2 ^ n = of_int \<lfloor>x * 2 ^ n\<rfloor>" and "\<bar>x * 2 ^ n\<bar> < 2 ^ 24" and "n \<le> 149"
  shows "round_fp binary32 x = Finite x"
  by (rule round_fp_scaled [where n = n]) (use assms in simp_all)

lemmas round64_int = round_binary64 [where n = 0, simplified]
lemmas round64_half = round_binary64 [where n = 1, simplified]
lemmas round64_eps = round_binary64 [where n = 52, simplified]
lemmas round32_int = round_binary32 [where n = 0, simplified]
lemmas round32_half = round_binary32 [where n = 1, simplified]
lemmas round32_eps = round_binary32 [where n = 23, simplified]

lemmas ieee_eval =
  ieee_ops_def tolerance_def exceeds_tolerance_def recomputed_count_def recomputed_gap_def
  spec_round_def spec_extent_gap_def spec_cell_size_def sizes_differ_def int_exact_def
  trunc_real_def INT_MIN_def finite3_def Let_def

lemmas binary64_eval =
  binary64_ops_def binary64_epsilon_def ieee_eval rint_real_def round64_int round64_half
  round64_eps

lemmas binary32_eval =
  binary32_ops_def binary32_epsilon_def ieee_eval rint_real_def round32_int round32_half
  round32_eps

lemmas round64_80 = round_binary64 [where n = 80, simplified]

text \<open>
  The quotient \<open>10 / 3\<close> is not a binary64 number; its rounding stays within \<open>2\<^sup>-\<^sup>5\<^sup>2\<close> of
  it.
\<close>

lemma rint_round_10_3: "rint_fp (round_fp binary64 (10 / 3)) = Finite 3"
proof -
  have "\<exists>r. round_fp binary64 (10 / 3) = Finite r \<and>
      \<bar>r - 10 / 3\<bar> \<le> 2 powr real_of_int (1 - int (precision binary64) + 1) / 2"
    by (rule round_fp_near) simp_all
  then obtain r where r: "round_fp binary64 (10 / 3) = Finite r"
    and e: "\<bar>r - 10 / 3\<bar> \<le> 2 powr real_of_int (1 - int (precision binary64) + 1) / 2"
    by blast
  note e
  also have "2 powr real_of_int (1 - int (precision binary64) + 1) / 2 \<le> (1 / 8 :: real)"
    by (simp add: powr_minus_divide)
  finally have "\<bar>r - 10 / 3\<bar> \<le> 1 / 8" .
  then have "real_of_int 3 - 1 / 2 < r" and "r < real_of_int 3 + 1 / 2"
    by linarith+
  then have "rint_real r = real_of_int 3"
    by (rule rint_real_near)
  with r show ?thesis by simp
qed

text \<open>
  In binary64 the conversion to \<^verbatim>\<open>int\<close> and back returns a rounded number exactly when
  the number is finite and in the range of \<^verbatim>\<open>int\<close>.
\<close>

lemma round64_int_min:
  "round_fp binary64 (real_of_int (- (2 ^ 31))) = Finite (real_of_int (- (2 ^ 31)))"
  by (intro round64_int) simp_all

lemma binary64_int_exact:
  "int_exact binary64_ops (rint_fp x) =
     (\<exists>a. x = Finite a \<and> - (2 ^ 31) \<le> rint_real a \<and> rint_real a < 2 ^ 31)"
proof (cases x)
  case (Finite a)
  obtain i where i: "rint_real a = of_int i"
    using rint_real_integer by blast
  show ?thesis
  proof (cases "- (2 ^ 31) \<le> i \<and> i < 2 ^ 31")
    case True
    then have "\<bar>real_of_int i\<bar> < 9007199254740992"
      by (simp add: abs_less_iff)
    then have "round_fp binary64 (real_of_int i) = Finite (real_of_int i)"
      by (intro round64_int) simp_all
    with True Finite i show ?thesis
      by (simp add: int_exact_def binary64_ops_def ieee_ops_def trunc_real_of_int)
  next
    case False
    then have "i \<noteq> - (2 ^ 31)" by auto
    then have "real_of_int i \<noteq> real_of_int (- (2 ^ 31))"
      by (simp only: of_int_eq_iff) simp
    with round64_int_min False Finite i show ?thesis
      by (auto simp: int_exact_def binary64_ops_def ieee_ops_def trunc_real_of_int INT_MIN_def)
  qed
next
  case (Infinity s)
  with round64_int_min show ?thesis
    by (simp add: int_exact_def binary64_ops_def ieee_ops_def INT_MIN_def)
next
  case NaN
  with round64_int_min show ?thesis
    by (simp add: int_exact_def binary64_ops_def ieee_ops_def INT_MIN_def)
qed

text \<open>
  For a finite number, not to exceed the tolerance is to be at most the tolerance; NaN
  neither exceeds the tolerance nor is at most the tolerance.
\<close>

lemma binary64_at_most:
  "(\<not> exceeds_tolerance binary64_ops (Finite x)) =
     less_eq_fp (Finite x) (tolerance binary64_ops)"
  "\<not> exceeds_tolerance binary64_ops NaN"
  "\<not> less_eq_fp NaN (tolerance binary64_ops)"
  by (simp_all add: binary64_eval not_less)

section \<open>The examples of the specification\<close>

lemma example_cell_size_2:
  "GlobalMesh_cell_size binary64_ops (finite3 0 0 0) (finite3 10 10 10) (Finite 2) =
     Inr \<lparr>global_low_corner = finite3 0 0 0, global_high_corner = finite3 10 10 10,
          cell_size = Finite 2\<rparr>"
  by (simp add: GlobalMesh_cell_size_Array3 binary64_eval)

lemma example_gap_3:
  "int_exact binary64_ops (spec_round binary64_ops (Finite 0) (Finite 10) (Finite 3))"
  "exceeds_tolerance binary64_ops (spec_extent_gap binary64_ops (Finite 0) (Finite 10) (Finite 3))"
  "exceeds_tolerance binary64_ops (recomputed_gap binary64_ops (Finite 0) (Finite 10) (Finite 3))"
  by (simp_all add: binary64_eval rint_round_10_3)

lemma example_cell_size_3:
  "GlobalMesh_cell_size binary64_ops (finite3 0 0 0) (finite3 10 10 10) (Finite 3) =
     Inl divisible_error"
  by (simp add: GlobalMesh_cell_size_Array3 finite3_def example_gap_3)

lemma example_num_cell_5:
  "GlobalMesh_num_cell binary64_ops (finite3 0 0 0) (finite3 10 10 10) (Array3 5 5 5) =
     Inr \<lparr>global_low_corner = finite3 0 0 0, global_high_corner = finite3 10 10 10,
          cell_size = Finite 2\<rparr>"
  by (simp add: GlobalMesh_num_cell_Array3 binary64_eval)

lemma example_num_cell_inconsistent:
  "GlobalMesh_num_cell binary64_ops (finite3 0 0 0) (finite3 10 10 20) (Array3 5 5 5) =
     Inl sizes_error"
  by (simp add: GlobalMesh_num_cell_Array3 binary64_eval)

section \<open>The cell size constructor\<close>

text \<open>
  Claim C1, as amended. For all corners and every cell size such that in each of the three
  dimensions the rounded quotient \<open>round(extent / cell_size)\<close> comes back unchanged from
  the conversion to \<^verbatim>\<open>int\<close> that \<^verbatim>\<open>globalNumCell\<close> makes (in binary64: it is a finite
  number in the range of \<^verbatim>\<open>int\<close>): the cell size constructor returns a mesh exactly when
  in no dimension the absolute difference between \<open>round(extent / cell_size) * cell_size\<close>
  and the extent exceeds \<open>100 * epsilon\<close> by the comparison \<^verbatim>\<open>>\<close> of the scalar type, which
  a difference that is NaN does not; when the difference exceeds the tolerance in some
  dimension, the constructor throws the logic error "Extent not evenly divisible by
  uniform cell size" and there is no object. The mesh returned holds the arguments.
\<close>

theorem cell_size_constructor_succeeds_iff:
  assumes "int_exact A (spec_round A l0 h0 cs)"
    and "int_exact A (spec_round A l1 h1 cs)"
    and "int_exact A (spec_round A l2 h2 cs)"
  shows
  "((\<exists>m. GlobalMesh_cell_size A (Array3 l0 l1 l2) (Array3 h0 h1 h2) cs = Inr m) =
      (\<not> exceeds_tolerance A (spec_extent_gap A l0 h0 cs) \<and>
       \<not> exceeds_tolerance A (spec_extent_gap A l1 h1 cs) \<and>
       \<not> exceeds_tolerance A (spec_extent_gap A l2 h2 cs))) \<and>
   (exceeds_tolerance A (spec_extent_gap A l0 h0 cs) \<or>
    exceeds_tolerance A (spec_extent_gap A l1 h1 cs) \<or>
    exceeds_tolerance A (spec_extent_gap A l2 h2 cs) \<longrightarrow>
      GlobalMesh_cell_size A (Array3 l0 l1 l2) (Array3 h0 h1 h2) cs =
        Inl (Logic_error ''Extent not evenly divisible by uniform cell size'')) \<and>
   (\<forall>m. GlobalMesh_cell_size A (Array3 l0 l1 l2) (Array3 h0 h1 h2) cs = Inr m \<longrightarrow>
        m = \<lparr>global_low_corner = Array3 l0 l1 l2, global_high_corner = Array3 h0 h1 h2,
             cell_size = cs\<rparr>)"
proof -
  have closed: "GlobalMesh_cell_size A (Array3 l0 l1 l2) (Array3 h0 h1 h2) cs =
     (if exceeds_tolerance A (spec_extent_gap A l0 h0 cs) \<or>
         exceeds_tolerance A (spec_extent_gap A l1 h1 cs) \<or>
         exceeds_tolerance A (spec_extent_gap A l2 h2 cs)
      then Inl divisible_error
      else Inr \<lparr>global_low_corner = Array3 l0 l1 l2, global_high_corner = Array3 h0 h1 h2,
                 cell_size = cs\<rparr>)"
    unfolding GlobalMesh_cell_size_Array3
    by (simp only: assms recomputed_gap_spec)
  show ?thesis
    unfolding closed by auto
qed

text \<open>
  The two examples of the specification, in binary64: the domain from \<open>(0, 0, 0)\<close> to
  \<open>(10, 10, 10)\<close> is accepted with cell size \<open>2\<close> and rejected with cell size \<open>3\<close>.
\<close>

theorem cell_size_constructor_succeeds_iff_witness:
  "int_exact binary64_ops (spec_round binary64_ops (Finite 0) (Finite 10) (Finite 2)) \<and>
   \<not> exceeds_tolerance binary64_ops
       (spec_extent_gap binary64_ops (Finite 0) (Finite 10) (Finite 2)) \<and>
   GlobalMesh_cell_size binary64_ops (finite3 0 0 0) (finite3 10 10 10) (Finite 2) =
     Inr \<lparr>global_low_corner = finite3 0 0 0, global_high_corner = finite3 10 10 10,
          cell_size = Finite 2\<rparr> \<and>
   int_exact binary64_ops (spec_round binary64_ops (Finite 0) (Finite 10) (Finite 3)) \<and>
   exceeds_tolerance binary64_ops
       (spec_extent_gap binary64_ops (Finite 0) (Finite 10) (Finite 3)) \<and>
   GlobalMesh_cell_size binary64_ops (finite3 0 0 0) (finite3 10 10 10) (Finite 3) =
     Inl (Logic_error ''Extent not evenly divisible by uniform cell size'')"
proof -
  let ?E = "binary64_ops"
  have i2: "int_exact ?E (spec_round ?E (Finite 0) (Finite 10) (Finite 2))"
    by (simp add: binary64_eval)
  have ok: "\<not> exceeds_tolerance ?E (spec_extent_gap ?E (Finite 0) (Finite 10) (Finite 2))"
    by (simp add: binary64_eval)
  note i3 = example_gap_3(1) and bad = example_gap_3(2)
  from i2 ok i3 bad
    cell_size_constructor_succeeds_iff [OF i2 i2 i2]
    cell_size_constructor_succeeds_iff [OF i3 i3 i3]
  show ?thesis by (auto simp: finite3_def)
qed

text \<open>
  The claim as stated fails in two ways, shown in binary64. For \<open>low = (0, 0, 0)\<close>,
  \<open>high = (2\<^sup>3\<^sup>1, 2\<^sup>3\<^sup>1, 2\<^sup>3\<^sup>1)\<close> and cell size \<open>1\<close> the rounded quotient is \<open>2\<^sup>3\<^sup>1\<close> and
  the difference of the claim is \<open>0\<close>, at most the tolerance; but \<open>2\<^sup>3\<^sup>1\<close> is not an
  \<^verbatim>\<open>int\<close>, \<^verbatim>\<open>globalNumCell\<close> returns \<open>- 2\<^sup>3\<^sup>1\<close>, and the constructor throws. For
  \<open>high = (10, 10, 10)\<close> and an infinite cell size the rounded quotient is \<open>0\<close>, the
  product \<open>0 * \<infinity>\<close> and with it the difference is NaN, which is not at most the tolerance;
  but NaN is not greater than the tolerance either, and the constructor returns a mesh.
\<close>

theorem cell_size_constructor_formula_fails:
  "spec_extent_gap binary64_ops (Finite 0) (Finite (2 ^ 31)) (Finite 1) = Finite 0 \<and>
   less_eq_fp (Finite 0) (tolerance binary64_ops) \<and>
   recomputed_count binary64_ops (Finite 0) (Finite (2 ^ 31)) (Finite 1) = - (2 ^ 31) \<and>
   GlobalMesh_cell_size binary64_ops (finite3 0 0 0) (finite3 (2 ^ 31) (2 ^ 31) (2 ^ 31))
     (Finite 1) = Inl (Logic_error ''Extent not evenly divisible by uniform cell size'') \<and>
   spec_extent_gap binary64_ops (Finite 0) (Finite 10) (Infinity False) = NaN \<and>
   \<not> less_eq_fp NaN (tolerance binary64_ops) \<and>
   GlobalMesh_cell_size binary64_ops (finite3 0 0 0) (finite3 10 10 10) (Infinity False) =
     Inr \<lparr>global_low_corner = finite3 0 0 0, global_high_corner = finite3 10 10 10,
          cell_size = Infinity False\<rparr>"
  by (simp add: GlobalMesh_cell_size_Array3 binary64_eval)

section \<open>The cell count constructor\<close>

text \<open>
  Claim C2. For all corners and counts, the cell count constructor computes the candidate
  cell size \<open>extent / n\<close> of each dimension; it throws the logic error "Cell sizes not equal"
  exactly when the candidate of dimension I differs from that of J or from that of K by
  more than \<open>100 * epsilon\<close>; and the mesh of a construction that succeeds has the candidate
  of dimension I as the cell size that \<open>uniformCellSize\<close> returns.
\<close>

theorem num_cell_constructor_cell_size:
  "cell_sizes_loop A (Array3 l0 l1 l2) (Array3 h0 h1 h2) (Array3 n0 n1 n2) uninitialized 0 =
     Some (Array3 (Some (spec_cell_size A l0 h0 n0)) (Some (spec_cell_size A l1 h1 n1))
       (Some (spec_cell_size A l2 h2 n2))) \<and>
   (GlobalMesh_num_cell A (Array3 l0 l1 l2) (Array3 h0 h1 h2) (Array3 n0 n1 n2) =
      Inl (Logic_error ''Cell sizes not equal'')) =
     (sizes_differ A (spec_cell_size A l0 h0 n0) (spec_cell_size A l1 h1 n1) \<or>
      sizes_differ A (spec_cell_size A l0 h0 n0) (spec_cell_size A l2 h2 n2)) \<and>
   (\<forall>m. GlobalMesh_num_cell A (Array3 l0 l1 l2) (Array3 h0 h1 h2) (Array3 n0 n1 n2) = Inr m \<longrightarrow>
        uniformCellSize m = spec_cell_size A l0 h0 n0)"
proof -
  let ?r = "GlobalMesh_num_cell A (Array3 l0 l1 l2) (Array3 h0 h1 h2) (Array3 n0 n1 n2)"
  have sizes:
    "cell_sizes_loop A (Array3 l0 l1 l2) (Array3 h0 h1 h2) (Array3 n0 n1 n2) uninitialized 0 =
     Some (Array3 (Some (spec_cell_size A l0 h0 n0)) (Some (spec_cell_size A l1 h1 n1))
       (Some (spec_cell_size A l2 h2 n2)))"
    by (rule cell_sizes_loop_Array3)
  have err: "(?r = Inl sizes_error) =
     (sizes_differ A (spec_cell_size A l0 h0 n0) (spec_cell_size A l1 h1 n1) \<or>
      sizes_differ A (spec_cell_size A l0 h0 n0) (spec_cell_size A l2 h2 n2))"
    by (simp add: GlobalMesh_num_cell_Array3 Let_def)
  have ok: "\<forall>m. ?r = Inr m \<longrightarrow> uniformCellSize m = spec_cell_size A l0 h0 n0"
    by (auto simp: GlobalMesh_num_cell_Array3 Let_def uniformCellSize_def split: if_splits)
  from sizes err ok show ?thesis by blast
qed

text \<open>
  The two examples of the specification: counts \<open>(5, 5, 5)\<close> on the domain up to
  \<open>(10, 10, 10)\<close> give cell size \<open>2\<close>; on the domain up to \<open>(10, 10, 20)\<close> the candidate
  of dimension K is \<open>4\<close> and the construction is rejected.
\<close>

theorem num_cell_constructor_cell_size_witness:
  "GlobalMesh_num_cell binary64_ops (finite3 0 0 0) (finite3 10 10 10) (Array3 5 5 5) =
     Inr \<lparr>global_low_corner = finite3 0 0 0, global_high_corner = finite3 10 10 10,
          cell_size = Finite 2\<rparr> \<and>
   uniformCellSize \<lparr>global_low_corner = finite3 0 0 0, global_high_corner = finite3 10 10 10,
          cell_size = Finite 2\<rparr> = spec_cell_size binary64_ops (Finite 0) (Finite 10) 5 \<and>
   spec_cell_size binary64_ops (Finite 0) (Finite 10) 5 = Finite 2 \<and>
   spec_cell_size binary64_ops (Finite 0) (Finite 20) 5 = Finite 4 \<and>
   sizes_differ binary64_ops (Finite 2) (Finite 4) \<and>
   GlobalMesh_num_cell binary64_ops (finite3 0 0 0) (finite3 10 10 20) (Array3 5 5 5) =
     Inl (Logic_error ''Cell sizes not equal'')"
proof -
  let ?E = "binary64_ops"
  let ?z = "Finite 0"
  let ?t = "Finite 10"
  have c: "spec_cell_size ?E ?z ?t 5 = Finite 2" "spec_cell_size ?E ?z (Finite 20) 5 = Finite 4"
    by (simp_all add: binary64_eval)
  have d: "sizes_differ ?E (Finite 2) (Finite 4)"
    by (simp add: binary64_eval)
  from c d example_num_cell_5
    num_cell_constructor_cell_size [of ?E ?z ?z ?z ?t ?t ?t 5 5 5]
    num_cell_constructor_cell_size [of ?E ?z ?z ?z ?t ?t "Finite 20" 5 5 5]
  show ?thesis by (simp add: finite3_def)
qed

text \<open>
  Claim C3, as amended. Once the cell sizes have passed the comparison, the constructor
  runs, for \<open>d = 0, 1, 2\<close> in this order, first the evenly-divisible check of the cell size
  constructor and then the comparison of the recomputed count \<open>round(extent / cell_size)\<close>
  with the requested \<open>n[d]\<close>, and stops at the first check that fails. So the construction
  fails whenever some gap exceeds the tolerance or some recomputed count is not the
  requested one; the error is "Global number of cells mismatch" exactly when the first
  failing check is a count comparison, "Extent not evenly divisible by uniform cell size"
  exactly when it is an evenly-divisible check; and the mesh is returned exactly when all
  six checks pass. Below, \<open>x0\<close>, \<open>x1\<close>, \<open>x2\<close> say that the gap of the dimension exceeds the
  tolerance and \<open>c0\<close>, \<open>c1\<close>, \<open>c2\<close> are the recomputed counts.
\<close>

theorem num_cell_constructor_checks_in_order:
  assumes cs: "cs = spec_cell_size A l0 h0 n0"
    and pass: "\<not> sizes_differ A cs (spec_cell_size A l1 h1 n1)"
              "\<not> sizes_differ A cs (spec_cell_size A l2 h2 n2)"
    and r: "r = GlobalMesh_num_cell A (Array3 l0 l1 l2) (Array3 h0 h1 h2) (Array3 n0 n1 n2)"
    and x: "x0 = exceeds_tolerance A (recomputed_gap A l0 h0 cs)"
           "x1 = exceeds_tolerance A (recomputed_gap A l1 h1 cs)"
           "x2 = exceeds_tolerance A (recomputed_gap A l2 h2 cs)"
    and c: "c0 = recomputed_count A l0 h0 cs" "c1 = recomputed_count A l1 h1 cs"
           "c2 = recomputed_count A l2 h2 cs"
  shows "(x0 \<or> x1 \<or> x2 \<or> c0 \<noteq> n0 \<or> c1 \<noteq> n1 \<or> c2 \<noteq> n2 \<longrightarrow>
            r = Inl (Logic_error ''Extent not evenly divisible by uniform cell size'') \<or>
            r = Inl (Logic_error ''Global number of cells mismatch'')) \<and>
         (r = Inl (Logic_error ''Global number of cells mismatch'')) =
            (\<not> x0 \<and> (c0 \<noteq> n0 \<or> \<not> x1 \<and> (c1 \<noteq> n1 \<or> \<not> x2 \<and> c2 \<noteq> n2))) \<and>
         (r = Inl (Logic_error ''Extent not evenly divisible by uniform cell size'')) =
            (x0 \<or> c0 = n0 \<and> (x1 \<or> c1 = n1 \<and> x2)) \<and>
         (r = Inr \<lparr>global_low_corner = Array3 l0 l1 l2, global_high_corner = Array3 h0 h1 h2,
                     cell_size = cs\<rparr>) =
            (\<not> x0 \<and> c0 = n0 \<and> \<not> x1 \<and> c1 = n1 \<and> \<not> x2 \<and> c2 = n2)"
proof -
  have closed: "r =
     (if x0 then Inl divisible_error
      else if c0 \<noteq> n0 then Inl mismatch_error
      else if x1 then Inl divisible_error
      else if c1 \<noteq> n1 then Inl mismatch_error
      else if x2 then Inl divisible_error
      else if c2 \<noteq> n2 then Inl mismatch_error
      else Inr \<lparr>global_low_corner = Array3 l0 l1 l2, global_high_corner = Array3 h0 h1 h2,
                 cell_size = cs\<rparr>)"
    using pass unfolding r x c cs
    by (simp add: GlobalMesh_num_cell_Array3 Let_def)
  show ?thesis
    unfolding closed by simp
qed

text \<open>
  A run of the theorem where the count comparison is the first check to fail. With
  \<open>e = 2\<^sup>-\<^sup>5\<^sup>2\<close>, the domain from \<open>(0, 0, 0)\<close> to \<open>(100 e, 200 e, 100 e)\<close> and counts
  \<open>(1, 1, 1)\<close>: the candidates \<open>100 e\<close> and \<open>200 e\<close> differ by the tolerance, not by more;
  dimension J is evenly divisible by \<open>100 e\<close>, into \<open>2\<close> cells where \<open>1\<close> was requested.
  Every number here is a binary64 number, and so is every result computed from them.
\<close>

theorem num_cell_constructor_checks_in_order_witness:
  "recomputed_count binary64_ops (Finite 0) (Finite (200 * binary64_epsilon))
     (Finite (100 * binary64_epsilon)) = 2 \<and>
   \<not> exceeds_tolerance binary64_ops
       (recomputed_gap binary64_ops (Finite 0) (Finite (200 * binary64_epsilon))
          (Finite (100 * binary64_epsilon))) \<and>
   GlobalMesh_num_cell binary64_ops (finite3 0 0 0)
     (finite3 (100 * binary64_epsilon) (200 * binary64_epsilon) (100 * binary64_epsilon))
     (Array3 1 1 1) = Inl (Logic_error ''Global number of cells mismatch'')"
proof -
  let ?E = "binary64_ops"
  let ?z = "Finite 0"
  let ?a = "Finite (100 * binary64_epsilon)"
  let ?b = "Finite (200 * binary64_epsilon)"
  have cs: "?a = spec_cell_size ?E ?z ?a 1"
    by (simp add: binary64_eval)
  have pass: "\<not> sizes_differ ?E ?a (spec_cell_size ?E ?z ?b 1)"
      "\<not> sizes_differ ?E ?a (spec_cell_size ?E ?z ?a 1)"
    by (simp_all add: binary64_eval)
  have c: "recomputed_count ?E ?z ?a ?a = 1" "recomputed_count ?E ?z ?b ?a = 2"
    by (simp_all add: binary64_eval)
  have x: "\<not> exceeds_tolerance ?E (recomputed_gap ?E ?z ?a ?a)"
      "\<not> exceeds_tolerance ?E (recomputed_gap ?E ?z ?b ?a)"
    by (simp_all add: binary64_eval)
  from c x
    num_cell_constructor_checks_in_order [OF cs pass refl refl refl refl refl refl refl]
  show ?thesis by (simp add: finite3_def)
qed

text \<open>
  The claim as stated fails where an evenly-divisible check fails in the dimension whose
  count is wrong, or before it. With \<open>e = 2\<^sup>-\<^sup>5\<^sup>2\<close>, the domain from \<open>(0, 0, 0)\<close> to
  \<open>(384 e, 1344 e, 384 e)\<close> and counts \<open>(1, 3, 1)\<close>: the candidates are \<open>384 e\<close>, \<open>448 e\<close>
  and \<open>384 e\<close> and pass the comparison; in dimension J the quotient \<open>1344 e / 384 e\<close> is
  \<open>3.5\<close>, rounded to \<open>4\<close> cells where \<open>3\<close> were requested, and the extent recomputed from
  them is \<open>1536 e\<close>, off by \<open>192 e\<close>. The constructor throws "Extent not evenly divisible
  by uniform cell size", not the mismatch error. Again all inputs and results are binary64
  numbers (as they are binary32 numbers with \<open>e = 2\<^sup>-\<^sup>2\<^sup>3\<close>).
\<close>

theorem mismatch_error_preempted:
  "\<not> sizes_differ binary64_ops
       (spec_cell_size binary64_ops (Finite 0) (Finite (384 * binary64_epsilon)) 1)
       (spec_cell_size binary64_ops (Finite 0) (Finite (1344 * binary64_epsilon)) 3) \<and>
   \<not> sizes_differ binary64_ops
       (spec_cell_size binary64_ops (Finite 0) (Finite (384 * binary64_epsilon)) 1)
       (spec_cell_size binary64_ops (Finite 0) (Finite (384 * binary64_epsilon)) 1) \<and>
   globalNumCell binary64_ops
     \<lparr>global_low_corner = finite3 0 0 0,
      global_high_corner =
        finite3 (384 * binary64_epsilon) (1344 * binary64_epsilon) (384 * binary64_epsilon),
      cell_size = spec_cell_size binary64_ops (Finite 0) (Finite (384 * binary64_epsilon)) 1\<rparr> 1
     = Some 4 \<and>
   GlobalMesh_num_cell binary64_ops (finite3 0 0 0)
     (finite3 (384 * binary64_epsilon) (1344 * binary64_epsilon) (384 * binary64_epsilon))
     (Array3 1 3 1) = Inl (Logic_error ''Extent not evenly divisible by uniform cell size'') \<and>
   GlobalMesh_num_cell binary64_ops (finite3 0 0 0)
     (finite3 (384 * binary64_epsilon) (1344 * binary64_epsilon) (384 * binary64_epsilon))
     (Array3 1 3 1) \<noteq> Inl (Logic_error ''Global number of cells mismatch'')"
  by (simp add: GlobalMesh_num_cell_Array3 globalNumCell_def extent_def lowCorner_def
      highCorner_def binary64_eval)

section \<open>Queries of the uniform mesh\<close>

lemma to_int_fp_rint_fp:
  assumes "rint_fp x = Finite q" and "- (2 ^ 31) \<le> q" and "q < 2 ^ 31"
  shows "real_of_int (to_int_fp (rint_fp x)) = q"
proof (cases x)
  case (Finite a)
  obtain i where i: "rint_real a = of_int i"
    using rint_real_integer by blast
  with assms Finite have q: "q = real_of_int i"
    by simp
  with assms have "real_of_int (- (2 ^ 31)) \<le> real_of_int i"
      "real_of_int i < real_of_int (2 ^ 31)"
    by simp_all
  then have "- (2 ^ 31) \<le> i" "i < 2 ^ 31"
    by (simp_all only: of_int_le_iff of_int_less_iff)
  with Finite i q show ?thesis
    by (simp add: trunc_real_of_int)
next
  case (Infinity s)
  with assms show ?thesis by simp
next
  case NaN
  with assms show ?thesis by simp
qed

text \<open>
  Claim C4, as amended. For every uniform mesh over a binary floating-point format (so for
  every one a constructor returned) and every dimension \<open>d\<close> in \<open>{0, 1, 2}\<close>: \<open>extent(d)\<close>
  is the floating-point difference \<open>highCorner(d) - lowCorner(d)\<close>; and whenever
  \<open>round(extent(d) / cell_size)\<close>, computed from the stored corners and the stored cell
  size, is a finite number \<open>q\<close> with \<open>- 2\<^sup>3\<^sup>1 \<le> q < 2\<^sup>3\<^sup>1\<close>, \<open>globalNumCell(d)\<close> is \<open>q\<close>.
  The range is what the \<^verbatim>\<open>int\<close> return type of \<open>globalNumCell\<close> can hold. The object
  has no field that holds a count.
\<close>

theorem uniform_extent_and_globalNumCell:
  assumes "d \<in> {0, 1, 2}"
  shows "\<exists>l h. lowCorner m d = Some l \<and> highCorner m d = Some h \<and>
           extent (ieee_ops F) m d = Some (minus_fp F h l) \<and>
           (\<forall>q. spec_round (ieee_ops F) l h (uniformCellSize m) = Finite q \<and>
                 - (2 ^ 31) \<le> q \<and> q < 2 ^ 31 \<longrightarrow>
              (\<exists>k. globalNumCell (ieee_ops F) m d = Some k \<and> real_of_int k = q))"
proof -
  obtain l0 l1 l2 where lo: "global_low_corner m = Array3 l0 l1 l2"
    by (cases "global_low_corner m") auto
  obtain h0 h1 h2 where hi: "global_high_corner m = Array3 h0 h1 h2"
    by (cases "global_high_corner m") auto
  have count: "real_of_int (to_int_fp (rint_fp (divide_fp F (minus_fp F h l) (cell_size m)))) = q"
    if "spec_round (ieee_ops F) l h (uniformCellSize m) = Finite q"
      and "- (2 ^ 31) \<le> q" and "q < 2 ^ 31" for l h q
    using that
    by (intro to_int_fp_rint_fp) (simp_all add: spec_round_def ieee_ops_def uniformCellSize_def)
  from assms consider "d = 0" | "d = 1" | "d = 2"
    by auto
  then show ?thesis
  proof cases
    case 1
    with lo hi count [of l0 h0] show ?thesis
      by (simp add: lowCorner_def highCorner_def extent_def globalNumCell_def ieee_ops_def)
  next
    case 2
    with lo hi count [of l1 h1] show ?thesis
      by (simp add: lowCorner_def highCorner_def extent_def globalNumCell_def ieee_ops_def)
  next
    case 3
    with lo hi count [of l2 h2] show ?thesis
      by (simp add: lowCorner_def highCorner_def extent_def globalNumCell_def ieee_ops_def)
  qed
qed

text \<open>
  The example of the specification: the mesh built from \<open>(0, 0, 0)\<close>, \<open>(10, 10, 10)\<close> and
  cell size \<open>2\<close> has extent \<open>10\<close> and \<open>5\<close> cells in every dimension.
\<close>

theorem uniform_extent_and_globalNumCell_witness:
  "GlobalMesh_cell_size binary64_ops (finite3 0 0 0) (finite3 10 10 10) (Finite 2) =
     Inr \<lparr>global_low_corner = finite3 0 0 0, global_high_corner = finite3 10 10 10,
          cell_size = Finite 2\<rparr> \<and>
   (0::int) \<in> {0, 1, 2} \<and>
   spec_round binary64_ops (Finite 0) (Finite 10) (Finite 2) = Finite 5 \<and>
   - (2 ^ 31) \<le> (5::real) \<and> (5::real) < 2 ^ 31 \<and>
   extent binary64_ops
     \<lparr>global_low_corner = finite3 0 0 0, global_high_corner = finite3 10 10 10,
      cell_size = Finite 2\<rparr> 0 = Some (Finite 10) \<and>
   globalNumCell binary64_ops
     \<lparr>global_low_corner = finite3 0 0 0, global_high_corner = finite3 10 10 10,
      cell_size = Finite 2\<rparr> 0 = Some 5 \<and>
   globalNumCell binary64_ops
     \<lparr>global_low_corner = finite3 0 0 0, global_high_corner = finite3 10 10 10,
      cell_size = Finite 2\<rparr> 1 = Some 5 \<and>
   globalNumCell binary64_ops
     \<lparr>global_low_corner = finite3 0 0 0, global_high_corner = finite3 10 10 10,
      cell_size = Finite 2\<rparr> 2 = Some 5"
proof -
  let ?m = "\<lparr>global_low_corner = finite3 0 0 0, global_high_corner = finite3 10 10 10,
             cell_size = Finite 2\<rparr>"
  have d: "(0::int) \<in> {0, 1, 2}" "(1::int) \<in> {0, 1, 2}" "(2::int) \<in> {0, 1, 2}"
    by simp_all
  have q: "spec_round binary64_ops (Finite 0) (Finite 10) (Finite 2) = Finite 5"
    by (simp add: binary64_eval)
  have e: "minus_fp binary64 (Finite 10) (Finite 0) = Finite 10"
    by (simp add: binary64_eval)
  have r: "- (2 ^ 31) \<le> (5::real) \<and> (5::real) < 2 ^ 31"
    by simp
  have k: "k = 5" if "real_of_int k = 5" for k
    using that by linarith
  from example_cell_size_2 q e r
    uniform_extent_and_globalNumCell [OF d(1), of ?m binary64]
    uniform_extent_and_globalNumCell [OF d(2), of ?m binary64]
    uniform_extent_and_globalNumCell [OF d(3), of ?m binary64]
  show ?thesis
    by (auto simp: lowCorner_def highCorner_def uniformCellSize_def finite3_def
        binary64_ops_def dest: k)
qed

text \<open>
  The claim as stated fails outside the range, shown in binary64. The cell size
  constructor returns a mesh for \<open>low = (0, 0, 0)\<close>, \<open>high = (2\<^sup>-\<^sup>4\<^sup>9, 2\<^sup>-\<^sup>4\<^sup>9, 2\<^sup>-\<^sup>4\<^sup>9)\<close> and
  cell size \<open>2\<^sup>-\<^sup>8\<^sup>0\<close>: the rounded quotient is \<open>2\<^sup>3\<^sup>1\<close>, \<open>globalNumCell\<close> returns \<open>- 2\<^sup>3\<^sup>1\<close>,
  and the extent recomputed from it is off by \<open>2\<^sup>-\<^sup>4\<^sup>8\<close>, less than the tolerance.
\<close>

theorem globalNumCell_out_of_range:
  "GlobalMesh_cell_size binary64_ops (finite3 0 0 0)
     (finite3 (1 / 2 ^ 49) (1 / 2 ^ 49) (1 / 2 ^ 49)) (Finite (1 / 2 ^ 80)) =
     Inr \<lparr>global_low_corner = finite3 0 0 0,
          global_high_corner = finite3 (1 / 2 ^ 49) (1 / 2 ^ 49) (1 / 2 ^ 49),
          cell_size = Finite (1 / 2 ^ 80)\<rparr> \<and>
   spec_round binary64_ops (Finite 0) (Finite (1 / 2 ^ 49)) (Finite (1 / 2 ^ 80)) =
     Finite (2 ^ 31) \<and>
   globalNumCell binary64_ops
     \<lparr>global_low_corner = finite3 0 0 0,
      global_high_corner = finite3 (1 / 2 ^ 49) (1 / 2 ^ 49) (1 / 2 ^ 49),
      cell_size = Finite (1 / 2 ^ 80)\<rparr> 0 = Some (- (2 ^ 31))"
  by (simp add: GlobalMesh_cell_size_Array3 globalNumCell_def extent_def lowCorner_def
      highCorner_def binary64_eval round64_80)

section \<open>The non-uniform mesh\<close>

lemma int_of_size_t_small:
  assumes "1 \<le> n" and "n \<le> 2 ^ 31"
  shows "int_of_size_t (size_t_minus_one n) = int n - 1"
proof -
  have a: "0 \<le> int n - 1" "int n - 1 < 2 ^ 31"
    using assms by (simp_all add: of_nat_le_iff [of n "2 ^ 31", symmetric] del: of_nat_le_iff)
  then have "size_t_minus_one n = int n - 1"
    by (simp add: size_t_minus_one_def)
  moreover from a have "(int n - 1 + 2 ^ 31) mod 2 ^ 32 = int n - 1 + 2 ^ 31"
    by simp
  ultimately show ?thesis
    by (simp add: int_of_size_t_def)
qed

text \<open>
  Claim C5, as amended. For every non-uniform mesh and every dimension \<open>d\<close> whose edge
  sequence \<open>edges[d]\<close> has at least \<open>2\<close> and at most \<open>2\<^sup>3\<^sup>1\<close> elements: \<open>lowCorner(d)\<close> is
  its first element, \<open>highCorner(d)\<close> its last, \<open>extent(d)\<close> their difference and
  \<open>globalNumCell(d)\<close> its length minus one. The upper bound is what the \<^verbatim>\<open>int\<close> return
  type of \<open>globalNumCell\<close> can hold.
\<close>

theorem nonuniform_queries:
  assumes "nonUniformEdge m d = Some es" and "2 \<le> length es" and "length es \<le> 2 ^ 31"
  shows "lowCorner_nonuniform m d = Some (hd es) \<and>
         highCorner_nonuniform m d = Some (last es) \<and>
         extent_nonuniform A m d = Some (minus_s A (last es) (hd es)) \<and>
         globalNumCell_nonuniform m d = Some (int (length es) - 1)"
proof -
  from assms(2) have ne: "es \<noteq> []" by auto
  then have f: "vector_front es = Some (hd es)" and b: "vector_back es = Some (last es)"
    by (simp_all add: vector_front_def vector_back_def split: list.splits)
  from assms have n: "int_of_size_t (size_t_minus_one (length es)) = int (length es) - 1"
    by (intro int_of_size_t_small) simp_all
  from assms(1) f b n show ?thesis
    by (simp add: nonUniformEdge_def lowCorner_nonuniform_def highCorner_nonuniform_def
        extent_nonuniform_def globalNumCell_nonuniform_def)
qed

text \<open>
  The example of the specification: for the edges \<open>[0, 1, 3, 6]\<close>, \<open>[0, 2, 4]\<close> and
  \<open>[0, 5]\<close> the low corner is \<open>(0, 0, 0)\<close>, the high corner \<open>(6, 4, 5)\<close> and the cell
  counts are \<open>(3, 2, 1)\<close>.
\<close>

theorem nonuniform_queries_witness:
  "nonUniformEdge
     (GlobalMesh_nonuniform [Finite 0, Finite 1, Finite 3, Finite 6] [Finite 0, Finite 2, Finite 4]
       [Finite 0, Finite 5]) 0 =
     Some [Finite 0, Finite 1, Finite 3, Finite 6] \<and>
   lowCorner_nonuniform
     (GlobalMesh_nonuniform [Finite 0, Finite 1, Finite 3, Finite 6] [Finite 0, Finite 2, Finite 4]
       [Finite 0, Finite 5]) 0 = Some (Finite 0) \<and>
   lowCorner_nonuniform
     (GlobalMesh_nonuniform [Finite 0, Finite 1, Finite 3, Finite 6] [Finite 0, Finite 2, Finite 4]
       [Finite 0, Finite 5]) 1 = Some (Finite 0) \<and>
   lowCorner_nonuniform
     (GlobalMesh_nonuniform [Finite 0, Finite 1, Finite 3, Finite 6] [Finite 0, Finite 2, Finite 4]
       [Finite 0, Finite 5]) 2 = Some (Finite 0) \<and>
   highCorner_nonuniform
     (GlobalMesh_nonuniform [Finite 0, Finite 1, Finite 3, Finite 6] [Finite 0, Finite 2, Finite 4]
       [Finite 0, Finite 5]) 0 = Some (Finite 6) \<and>
   highCorner_nonuniform
     (GlobalMesh_nonuniform [Finite 0, Finite 1, Finite 3, Finite 6] [Finite 0, Finite 2, Finite 4]
       [Finite 0, Finite 5]) 1 = Some (Finite 4) \<and>
   highCorner_nonuniform
     (GlobalMesh_nonuniform [Finite 0, Finite 1, Finite 3, Finite 6] [Finite 0, Finite 2, Finite 4]
       [Finite 0, Finite 5]) 2 = Some (Finite 5) \<and>
   extent_nonuniform binary64_ops
     (GlobalMesh_nonuniform [Finite 0, Finite 1, Finite 3, Finite 6] [Finite 0, Finite 2, Finite 4]
       [Finite 0, Finite 5]) 0 = Some (Finite 6) \<and>
   globalNumCell_nonuniform
     (GlobalMesh_nonuniform [Finite 0, Finite 1, Finite 3, Finite 6] [Finite 0, Finite 2, Finite 4]
       [Finite 0, Finite 5]) 0 = Some 3 \<and>
   globalNumCell_nonuniform
     (GlobalMesh_nonuniform [Finite 0, Finite 1, Finite 3, Finite 6] [Finite 0, Finite 2, Finite 4]
       [Finite 0, Finite 5]) 1 = Some 2 \<and>
   globalNumCell_nonuniform
     (GlobalMesh_nonuniform [Finite 0, Finite 1, Finite 3, Finite 6] [Finite 0, Finite 2, Finite 4]
       [Finite 0, Finite 5]) 2 = Some 1"
proof -
  let ?i = "[Finite 0, Finite 1, Finite 3, Finite 6]"
  let ?j = "[Finite 0, Finite 2, Finite 4]"
  let ?k = "[Finite 0, Finite 5]"
  let ?m = "GlobalMesh_nonuniform ?i ?j ?k"
  let ?E = "binary64_ops"
  have e: "nonUniformEdge ?m 0 = Some ?i" "nonUniformEdge ?m 1 = Some ?j"
      "nonUniformEdge ?m 2 = Some ?k"
    by (simp_all add: GlobalMesh_nonuniform_def nonUniformEdge_def)
  have "lowCorner_nonuniform ?m 0 = Some (hd ?i) \<and>
        highCorner_nonuniform ?m 0 = Some (last ?i) \<and>
        extent_nonuniform ?E ?m 0 = Some (minus_s ?E (last ?i) (hd ?i)) \<and>
        globalNumCell_nonuniform ?m 0 = Some (int (length ?i) - 1)"
    by (rule nonuniform_queries [OF e(1)]) simp_all
  moreover have "lowCorner_nonuniform ?m 1 = Some (hd ?j) \<and>
        highCorner_nonuniform ?m 1 = Some (last ?j) \<and>
        extent_nonuniform ?E ?m 1 = Some (minus_s ?E (last ?j) (hd ?j)) \<and>
        globalNumCell_nonuniform ?m 1 = Some (int (length ?j) - 1)"
    by (rule nonuniform_queries [OF e(2)]) simp_all
  moreover have "lowCorner_nonuniform ?m 2 = Some (hd ?k) \<and>
        highCorner_nonuniform ?m 2 = Some (last ?k) \<and>
        extent_nonuniform ?E ?m 2 = Some (minus_s ?E (last ?k) (hd ?k)) \<and>
        globalNumCell_nonuniform ?m 2 = Some (int (length ?k) - 1)"
    by (rule nonuniform_queries [OF e(3)]) simp_all
  ultimately show ?thesis
    using e(1) by (simp add: binary64_eval)
qed

text \<open>
  Without the upper bound the claim fails: for an edge sequence of \<open>2\<^sup>3\<^sup>1 + 1\<close> elements
  the length minus one is \<open>2\<^sup>3\<^sup>1\<close>, which the conversion to \<^verbatim>\<open>int\<close> turns into
  \<open>- 2\<^sup>3\<^sup>1\<close>.
\<close>

theorem globalNumCell_nonuniform_wraps:
  "2 \<le> length (replicate (2 ^ 31 + 1) (0::real)) \<and>
   nonUniformEdge (GlobalMesh_nonuniform (replicate (2 ^ 31 + 1) (0::real)) [0, 1] [0, 1]) 0 =
     Some (replicate (2 ^ 31 + 1) 0) \<and>
   globalNumCell_nonuniform
     (GlobalMesh_nonuniform (replicate (2 ^ 31 + 1) (0::real)) [0, 1] [0, 1]) 0 =
     Some (- (2 ^ 31)) \<and>
   int (length (replicate (2 ^ 31 + 1) (0::real))) - 1 = 2 ^ 31"
  by (simp add: GlobalMesh_nonuniform_def nonUniformEdge_def globalNumCell_nonuniform_def
      int_of_size_t_def size_t_minus_one_def)

text \<open>
  Claim C6. The non-uniform constructor is a total function: it checks nothing, for no
  triple of sequences does it throw, and the object holds the three sequences as given.
  For each dimension \<open>nonUniformEdge\<close> returns the sequence given for it.
\<close>

theorem nonUniformEdge_roundtrip:
  "edges (GlobalMesh_nonuniform i_edges j_edges k_edges) = Array3 i_edges j_edges k_edges \<and>
   nonUniformEdge (GlobalMesh_nonuniform i_edges j_edges k_edges) 0 = Some i_edges \<and>
   nonUniformEdge (GlobalMesh_nonuniform i_edges j_edges k_edges) 1 = Some j_edges \<and>
   nonUniformEdge (GlobalMesh_nonuniform i_edges j_edges k_edges) 2 = Some k_edges"
  by (simp add: GlobalMesh_nonuniform_def nonUniformEdge_def)

text \<open>Sequences that are not increasing, or are empty, come back unchanged as well.\<close>

theorem nonUniformEdge_roundtrip_witness:
  "nonUniformEdge (GlobalMesh_nonuniform [3, 1, 2 :: real] [] [5, 5]) 0 = Some [3, 1, 2] \<and>
   nonUniformEdge (GlobalMesh_nonuniform [3, 1, 2 :: real] [] [5, 5]) 1 = Some [] \<and>
   nonUniformEdge (GlobalMesh_nonuniform [3, 1, 2 :: real] [] [5, 5]) 2 = Some [5, 5]"
  using nonUniformEdge_roundtrip [of "[3, 1, 2 :: real]" "[]" "[5, 5]"]
  by simp

section \<open>The two uniform constructors together\<close>

text \<open>
  Claim C7. For \<open>low = (0, 0, 0)\<close>, \<open>high = (10, 10, 10)\<close> and counts \<open>(5, 5, 5)\<close> the cell
  count constructor succeeds and \<open>uniformCellSize\<close> is \<open>2\<close>; the cell size constructor
  with the same corners and cell size \<open>2\<close> succeeds too, and the two meshes give the same
  answer to \<open>lowCorner\<close>, \<open>highCorner\<close>, \<open>extent\<close>, \<open>globalNumCell\<close> in every dimension
  and to \<open>uniformCellSize\<close>. Stated for \<^verbatim>\<open>double\<close> and for \<^verbatim>\<open>float\<close>.
\<close>

theorem count_and_size_construction_agree:
  "(\<exists>m m'.
      GlobalMesh_num_cell binary64_ops (finite3 0 0 0) (finite3 10 10 10) (Array3 5 5 5) =
        Inr m \<and>
      uniformCellSize m = Finite 2 \<and>
      GlobalMesh_cell_size binary64_ops (finite3 0 0 0) (finite3 10 10 10) (Finite 2) =
        Inr m' \<and>
      same_answers binary64_ops m m') \<and>
   (\<exists>m m'.
      GlobalMesh_num_cell binary32_ops (finite3 0 0 0) (finite3 10 10 10) (Array3 5 5 5) =
        Inr m \<and>
      uniformCellSize m = Finite 2 \<and>
      GlobalMesh_cell_size binary32_ops (finite3 0 0 0) (finite3 10 10 10) (Finite 2) =
        Inr m' \<and>
      same_answers binary32_ops m m')"
proof -
  let ?m = "\<lparr>global_low_corner = finite3 0 0 0, global_high_corner = finite3 10 10 10,
             cell_size = Finite 2\<rparr>"
  have count32: "GlobalMesh_num_cell binary32_ops (finite3 0 0 0) (finite3 10 10 10)
      (Array3 5 5 5) = Inr ?m"
    by (simp add: GlobalMesh_num_cell_Array3 binary32_eval)
  have size32: "GlobalMesh_cell_size binary32_ops (finite3 0 0 0) (finite3 10 10 10)
      (Finite 2) = Inr ?m"
    by (simp add: GlobalMesh_cell_size_Array3 binary32_eval)
  have two: "uniformCellSize ?m = Finite 2"
    by (simp add: uniformCellSize_def)
  have same: "same_answers A ?m ?m" for A
    by (simp add: same_answers_def)
  from example_num_cell_5 example_cell_size_2 count32 size32 two same
  show ?thesis
    by blast
qed

text \<open>
  An input on which the candidates of J and K lie on opposite sides of that of I, each at
  the distance of the tolerance.
\<close>

lemma example_J_K_differ_binary64:
  "GlobalMesh_num_cell binary64_ops (finite3 0 0 0)
     (finite3 1 (1 + 100 * binary64_epsilon) (1 - 100 * binary64_epsilon)) (Array3 1 1 1) =
     Inr \<lparr>global_low_corner = finite3 0 0 0,
          global_high_corner =
            finite3 1 (1 + 100 * binary64_epsilon) (1 - 100 * binary64_epsilon),
          cell_size = Finite 1\<rparr>"
  "spec_cell_size binary64_ops (Finite 0) (Finite (1 + 100 * binary64_epsilon)) 1 =
     Finite (1 + 100 * binary64_epsilon)"
  "spec_cell_size binary64_ops (Finite 0) (Finite (1 - 100 * binary64_epsilon)) 1 =
     Finite (1 - 100 * binary64_epsilon)"
  "sizes_differ binary64_ops (Finite (1 + 100 * binary64_epsilon))
     (Finite (1 - 100 * binary64_epsilon))"
  by (simp_all add: GlobalMesh_num_cell_Array3 binary64_eval)

lemma example_J_K_differ_binary32:
  "GlobalMesh_num_cell binary32_ops (finite3 0 0 0)
     (finite3 1 (1 + 100 * binary32_epsilon) (1 - 100 * binary32_epsilon)) (Array3 1 1 1) =
     Inr \<lparr>global_low_corner = finite3 0 0 0,
          global_high_corner =
            finite3 1 (1 + 100 * binary32_epsilon) (1 - 100 * binary32_epsilon),
          cell_size = Finite 1\<rparr>"
  "spec_cell_size binary32_ops (Finite 0) (Finite (1 + 100 * binary32_epsilon)) 1 =
     Finite (1 + 100 * binary32_epsilon)"
  "spec_cell_size binary32_ops (Finite 0) (Finite (1 - 100 * binary32_epsilon)) 1 =
     Finite (1 - 100 * binary32_epsilon)"
  "sizes_differ binary32_ops (Finite (1 + 100 * binary32_epsilon))
     (Finite (1 - 100 * binary32_epsilon))"
  by (simp_all add: GlobalMesh_num_cell_Array3 binary32_eval)

text \<open>
  Claim C8. The cell count constructor compares the candidate of dimension I with that of
  J and with that of K, never J with K: there is an input whose candidates of J and K
  differ by more than \<open>100 * epsilon\<close> and on which the construction succeeds. With
  \<open>t = 100 * epsilon\<close> it is the domain from \<open>(0, 0, 0)\<close> to \<open>(1, 1 + t, 1 - t)\<close> with
  counts \<open>(1, 1, 1)\<close>: the candidates are \<open>1\<close>, \<open>1 + t\<close> and \<open>1 - t\<close>; those of J and K
  differ by \<open>2 t\<close>, and the construction succeeds with cell size \<open>1\<close>. All these are
  numbers of the format, for \<^verbatim>\<open>double\<close> and for \<^verbatim>\<open>float\<close>, and so is every result
  computed from them.
\<close>

theorem J_and_K_never_compared:
  "(\<exists>l0 l1 l2 h0 h1 h2 n0 n1 n2 m.
      GlobalMesh_num_cell binary64_ops (Array3 l0 l1 l2) (Array3 h0 h1 h2) (Array3 n0 n1 n2) =
        Inr m \<and>
      sizes_differ binary64_ops (spec_cell_size binary64_ops l1 h1 n1)
        (spec_cell_size binary64_ops l2 h2 n2)) \<and>
   (\<exists>l0 l1 l2 h0 h1 h2 n0 n1 n2 m.
      GlobalMesh_num_cell binary32_ops (Array3 l0 l1 l2) (Array3 h0 h1 h2) (Array3 n0 n1 n2) =
        Inr m \<and>
      sizes_differ binary32_ops (spec_cell_size binary32_ops l1 h1 n1)
        (spec_cell_size binary32_ops l2 h2 n2))"
proof
  have "sizes_differ binary64_ops
      (spec_cell_size binary64_ops (Finite 0) (Finite (1 + 100 * binary64_epsilon)) 1)
      (spec_cell_size binary64_ops (Finite 0) (Finite (1 - 100 * binary64_epsilon)) 1)"
    by (simp only: example_J_K_differ_binary64)
  with example_J_K_differ_binary64(1) [unfolded finite3_def]
  show "\<exists>l0 l1 l2 h0 h1 h2 n0 n1 n2 m.
      GlobalMesh_num_cell binary64_ops (Array3 l0 l1 l2) (Array3 h0 h1 h2) (Array3 n0 n1 n2) =
        Inr m \<and>
      sizes_differ binary64_ops (spec_cell_size binary64_ops l1 h1 n1)
        (spec_cell_size binary64_ops l2 h2 n2)"
    by blast
next
  have "sizes_differ binary32_ops
      (spec_cell_size binary32_ops (Finite 0) (Finite (1 + 100 * binary32_epsilon)) 1)
      (spec_cell_size binary32_ops (Finite 0) (Finite (1 - 100 * binary32_epsilon)) 1)"
    by (simp only: example_J_K_differ_binary32)
  with example_J_K_differ_binary32(1) [unfolded finite3_def]
  show "\<exists>l0 l1 l2 h0 h1 h2 n0 n1 n2 m.
      GlobalMesh_num_cell binary32_ops (Array3 l0 l1 l2) (Array3 h0 h1 h2) (Array3 n0 n1 n2) =
        Inr m \<and>
      sizes_differ binary32_ops (spec_cell_size binary32_ops l1 h1 n1)
        (spec_cell_size binary32_ops l2 h2 n2)"
    by blast
qed

section \<open>What the constructors store, and what the queries leave\<close>

text \<open>
  Claim C9. A uniform mesh returned by either constructor holds the corner arrays it was
  given: \<open>lowCorner(d)\<close> and \<open>highCorner(d)\<close> read the elements of the arguments; and the
  mesh of the cell size constructor holds the cell size it was given. The checks change
  no stored number.
\<close>

theorem constructors_store_arguments:
  "(GlobalMesh_cell_size A lo hi cs = Inr m \<longrightarrow>
      global_low_corner m = lo \<and> global_high_corner m = hi \<and>
      (\<forall>d. lowCorner m d = array_at lo d \<and> highCorner m d = array_at hi d) \<and>
      uniformCellSize m = cs) \<and>
   (GlobalMesh_num_cell A lo hi n = Inr m' \<longrightarrow>
      global_low_corner m' = lo \<and> global_high_corner m' = hi \<and>
      (\<forall>d. lowCorner m' d = array_at lo d \<and> highCorner m' d = array_at hi d))"
  by (auto simp: lowCorner_def highCorner_def uniformCellSize_def
      dest: GlobalMesh_cell_size_stores GlobalMesh_num_cell_stores)

theorem constructors_store_arguments_witness:
  "GlobalMesh_cell_size binary64_ops (finite3 0 0 0) (finite3 10 10 10) (Finite 2) =
     Inr \<lparr>global_low_corner = finite3 0 0 0, global_high_corner = finite3 10 10 10,
          cell_size = Finite 2\<rparr> \<and>
   GlobalMesh_num_cell binary64_ops (finite3 0 0 0) (finite3 10 10 10) (Array3 5 5 5) =
     Inr \<lparr>global_low_corner = finite3 0 0 0, global_high_corner = finite3 10 10 10,
          cell_size = Finite 2\<rparr> \<and>
   lowCorner \<lparr>global_low_corner = finite3 0 0 0, global_high_corner = finite3 10 10 10,
          cell_size = Finite 2\<rparr> 1 = Some (Finite 0) \<and>
   highCorner \<lparr>global_low_corner = finite3 0 0 0, global_high_corner = finite3 10 10 10,
          cell_size = Finite 2\<rparr> 1 = Some (Finite 10) \<and>
   uniformCellSize \<lparr>global_low_corner = finite3 0 0 0, global_high_corner = finite3 10 10 10,
          cell_size = Finite 2\<rparr> = Finite 2"
  using example_cell_size_2 example_num_cell_5
    constructors_store_arguments [of "binary64_ops" "finite3 0 0 0"
      "finite3 10 10 10" "Finite 2"
      "\<lparr>global_low_corner = finite3 0 0 0, global_high_corner = finite3 10 10 10,
        cell_size = Finite 2\<rparr>"
      "Array3 5 5 5"
      "\<lparr>global_low_corner = finite3 0 0 0, global_high_corner = finite3 10 10 10,
        cell_size = Finite 2\<rparr>"]
  by (simp add: finite3_def)

lemma run_calls_unchanged:
  assumes "\<And>q. snd (call m q) = m"
  shows "run_calls call m qs = (map (\<lambda>q. fst (call m q)) qs, m)"
proof (induction qs)
  case Nil
  show ?case by simp
next
  case (Cons q qs)
  obtain r where "call m q = (r, m)"
    using assms [of q] by (cases "call m q") auto
  with Cons show ?case by simp
qed

text \<open>
  Claim C10. For a mesh of either variant and any sequence of query calls on it: the
  object after the calls is the object before them, and each call returns what the same
  call returns on the object as constructed. So a repeated call returns the same answer,
  and no call changes a stored field.
\<close>

theorem queries_pure:
  "run_calls (call_uniform A) m qs = (map (\<lambda>q. fst (call_uniform A m q)) qs, m) \<and>
   run_calls (call_nonuniform A) n qs' = (map (\<lambda>q. fst (call_nonuniform A n q)) qs', n)"
proof
  have "snd (call_uniform A m q) = m" for q
    by (cases q) simp_all
  then show "run_calls (call_uniform A) m qs = (map (\<lambda>q. fst (call_uniform A m q)) qs, m)"
    by (rule run_calls_unchanged)
  have "snd (call_nonuniform A n q) = n" for q
    by (cases q) simp_all
  then show "run_calls (call_nonuniform A) n qs' =
      (map (\<lambda>q. fst (call_nonuniform A n q)) qs', n)"
    by (rule run_calls_unchanged)
qed

end
